theory Spec2Isabelle
  imports Main
begin

section \<open>Go library primitives used by the provisioning code\<close>

text \<open>
  Go strings are byte sequences; they are modelled as \<open>string\<close>. Go's \<open>int\<close> is the
  64-bit signed integer; it is modelled as \<open>int\<close> and the two places where the range
  matters (\<open>strconv.Atoi\<close> and the addition \<open>1 + iBECount\<close>) write the range out.
\<close>

definition digit_char :: "nat \<Rightarrow> char" where
  "digit_char d =
     (if d = 0 then CHR ''0'' else if d = 1 then CHR ''1'' else if d = 2 then CHR ''2''
      else if d = 3 then CHR ''3'' else if d = 4 then CHR ''4'' else if d = 5 then CHR ''5''
      else if d = 6 then CHR ''6'' else if d = 7 then CHR ''7'' else if d = 8 then CHR ''8''
      else CHR ''9'')"

definition digit_val :: "char \<Rightarrow> nat option" where
  "digit_val c =
     map_of [(CHR ''0'', 0), (CHR ''1'', 1), (CHR ''2'', 2), (CHR ''3'', 3), (CHR ''4'', 4),
             (CHR ''5'', 5), (CHR ''6'', 6), (CHR ''7'', 7), (CHR ''8'', 8), (CHR ''9'', 9)] c"

text \<open>Decimal rendering of a natural number, most significant digit first, no leading zero.\<close>

fun utoa :: "nat \<Rightarrow> string" where
  "utoa n = (if n < 10 then [digit_char n] else utoa (n div 10) @ [digit_char (n mod 10)])"

declare utoa.simps [simp del]

text \<open>\<open>strconv.Itoa\<close>: a minus sign for a negative number, then the decimal digits.\<close>

definition Itoa :: "int \<Rightarrow> string" where
  "Itoa i = (if i < 0 then CHR ''-'' # utoa (nat (- i)) else utoa (nat i))"

text \<open>
  The value of a string of decimal digits read left to right, \<open>None\<close> as soon as a
  character is not a digit. The accumulator is the value read so far.
\<close>

fun digits_val :: "nat \<Rightarrow> string \<Rightarrow> nat option" where
  "digits_val acc [] = Some acc"
| "digits_val acc (c # cs) =
     (case digit_val c of None \<Rightarrow> None | Some d \<Rightarrow> digits_val (10 * acc + d) cs)"

definition parse_digits :: "string \<Rightarrow> nat option" where
  "parse_digits s = (if s = [] then None else digits_val 0 s)"

datatype error =
    NilPvc                          \<comment> \<open>"Nil persistent volume claim provided"\<close>
  | MissingVSMName                  \<comment> \<open>"Missing VSM name in pvc"\<close>
  | MissingLabels                   \<comment> \<open>"Missing labels in pvc"\<close>
  | MissingProperty string          \<comment> \<open>"Missing <property> in pvc"\<close>
  | AtoiSyntax string               \<comment> \<open>strconv.Atoi: parsing <s>: invalid syntax\<close>
  | AtoiRange string                \<comment> \<open>strconv.Atoi: parsing <s>: value out of range\<close>
  | InvalidReplicaCountZero         \<comment> \<open>"Invalid replica count '0'"\<close>
  | ReplicaIPCountMismatch int int  \<comment> \<open>"Replica IP count '%d' does not match replica count '%d'"\<close>
  | NilJobEval                      \<comment> \<open>"Nil job evaluation provided"\<close>
  | NilPv                           \<comment> \<open>"Nil persistent volume provided"\<close>
  | NilJob                          \<comment> \<open>"Nil job provided"\<close>
  | LabelsMissing                   \<comment> \<open>"Labels missing in pvc"\<close>
  | LabelsNotInitialized            \<comment> \<open>"Persistent volume claim's labels not initialized"\<close>
  | StorageSpecsMissing             \<comment> \<open>"Storage specs missing in pvc"\<close>
  | InvalidStorageSize              \<comment> \<open>"Invalid storage size in pvc"\<close>
  | AspectMissing                   \<comment> \<open>"Aspect missing while setting pvc region"\<close>
  | OrchestratorMissing             \<comment> \<open>"Orchestrator missing while setting pvc region"\<close>
  | RegionUndetermined              \<comment> \<open>"Region could not be determined"\<close>
  | DatacenterUndetermined          \<comment> \<open>"Datacenter could not be determined"\<close>
  | DatacenterNotProvided           \<comment> \<open>"Datacenter not provided"\<close>
  | NetworkCIDRUndetermined         \<comment> \<open>"Network CIDR could not be determined"\<close>
  | StorageOpsNotSupported string   \<comment> \<open>"Storage operations not supported by orchestrator '%s'"\<close>
  | NetworkOpsNotSupported string   \<comment> \<open>"Network operations not supported by orchestrator '%s'"\<close>
  | External string                 \<comment> \<open>an error value handed back by a collaborator\<close>
  | InvalidCIDR                     \<comment> \<open>the address helper could not parse the CIDR\<close>
  | AddressPoolExhausted            \<comment> \<open>the address helper found too few usable addresses\<close>
  | PanicNilDereference             \<comment> \<open>run-time panic: nil pointer dereference\<close>
  | PanicIndexOutOfRange            \<comment> \<open>run-time panic: index out of range\<close>
  | PanicNilMapWrite                \<comment> \<open>run-time panic: assignment to entry in nil map\<close>

definition is_panic :: "error \<Rightarrow> bool" where
  "is_panic e = (e = PanicNilDereference \<or> e = PanicIndexOutOfRange \<or> e = PanicNilMapWrite)"

text \<open>
  The digit loop of \<open>strconv.ParseUint\<close> for base 10 and 64 bits, on behalf of \<open>Atoi\<close>
  called with \<open>s0\<close>: a character that is not a digit is a syntax error; a digit that would
  take the number read so far beyond 64 bits is a range error. Characters are looked at
  in order, so the first of the two to occur decides.
\<close>

fun ParseUint_digits :: "string \<Rightarrow> nat \<Rightarrow> string \<Rightarrow> error + nat" where
  "ParseUint_digits s0 n [] = Inr n"
| "ParseUint_digits s0 n (c # cs) =
     (case digit_val c of
        None \<Rightarrow> Inl (AtoiSyntax s0)
      | Some d \<Rightarrow>
          if 1844674407370955162 \<le> n then Inl (AtoiRange s0)
          else if 18446744073709551615 < 10 * n + d then Inl (AtoiRange s0)
          else ParseUint_digits s0 (10 * n + d) cs)"

text \<open>
  \<open>strconv.Atoi\<close>, that is \<open>ParseInt(s, 10, 0)\<close>: one optional leading sign, then at least
  one decimal digit and nothing else; the value has to fit the 64-bit \<open>int\<close>.
\<close>

definition Atoi :: "string \<Rightarrow> error + int" where
  "Atoi s =
     (case s of
        [] \<Rightarrow> Inl (AtoiSyntax s)
      | c # r \<Rightarrow>
          if (if c = CHR ''-'' \<or> c = CHR ''+'' then r else s) = [] then Inl (AtoiSyntax s)
          else
            (case ParseUint_digits s 0 (if c = CHR ''-'' \<or> c = CHR ''+'' then r else s) of
               Inl e \<Rightarrow> Inl e
             | Inr un \<Rightarrow>
                 if c \<noteq> CHR ''-'' \<and> 2 ^ 63 \<le> un then Inl (AtoiRange s)
                 else if c = CHR ''-'' \<and> 2 ^ 63 < un then Inl (AtoiRange s)
                 else Inr (if c = CHR ''-'' then - int un else int un)))"

text \<open>Addition on Go's \<open>int\<close>: the sum wraps around at 64 bits.\<close>

definition add_int64 :: "int \<Rightarrow> int \<Rightarrow> int" where
  "add_int64 a b = (a + b + 2 ^ 63) mod 2 ^ 64 - 2 ^ 63"

text \<open>
  \<open>strings.Split(s, sep)\<close> for a separator of one character: the pieces between the
  separators, in order; a string without separator (also the empty one) is one piece.
\<close>

fun Split :: "string \<Rightarrow> char \<Rightarrow> string list" where
  "Split [] sep = [[]]"
| "Split (c # cs) sep =
     (if c = sep then [] # Split cs sep
      else (case Split cs sep of [] \<Rightarrow> [[c]] | p # ps \<Rightarrow> (c # p) # ps))"

text \<open>\<open>strings.TrimSuffix\<close>: the string without the suffix, if it ends with it.\<close>

definition TrimSuffix :: "string \<Rightarrow> string \<Rightarrow> string" where
  "TrimSuffix s suf =
     (if length suf \<le> length s \<and> drop (length s - length suf) s = suf
      then take (length s - length suf) s else s)"

text \<open>
  A Go \<open>map[string]string\<close> is a finite map; reading a key that is absent yields the
  zero value, the empty string.
\<close>

type_synonym labels = "string \<rightharpoonup> string"

definition lbl :: "labels \<Rightarrow> string \<Rightarrow> string" where
  "lbl m k = (case m k of None \<Rightarrow> [] | Some v \<Rightarrow> v)"

section \<open>Data model\<close>

text \<open>
  The label keys and the two string constants of the packages \<open>lib/api/v1\<close> and
  \<open>lib/api/v1/jiva\<close> are declared outside the files at hand. Their names are the
  constructors of \<open>const_name\<close>; their values are a parameter \<open>K\<close> of every function
  that uses one, so that what is proved holds whatever strings they are.
\<close>

datatype const_name =
    JivaFrontEndImageLbl | JivaFrontEndVolSizeLbl | JivaBackEndVolSizeLbl
  | JivaFrontEndIPLbl | JivaBackEndAllIPsLbl | JivaBackEndIPPrefixLbl
  | JivaTargetPortalLbl | JivaIqnLbl
  | RegionLbl | DatacenterLbl | CSReplicaCountLbl
  | CNTypeLbl | CNNetworkCIDRAddrLbl | CNSubnetLbl | CNInterfaceLbl
  | OrchRegionLbl | OrchDCLbl
  | PVPControllerImageLbl | PVPControllerIPsLbl | PVPReplicaIPsLbl
  | PVPReplicaCountLbl | PVPPersistenceLocationLbl | PVPStorageSizeLbl
  | JivaISCSIPortDef | JivaIqnFormatPrefix

type_synonym constants = "const_name \<Rightarrow> string"

text \<open>
  A \<open>resource.Quantity\<close> is used through \<open>Sign()\<close> only and is modelled by an integer
  amount; the zero value of the type is the amount 0. A nil map is \<open>None\<close>.
\<close>

type_synonym requests = "string \<rightharpoonup> int"

record PersistentVolumeClaim =
  pvc_Name :: string
  pvc_Labels :: "labels option"
  pvc_Requests :: "requests option"

record PersistentVolumeStatus =
  Message :: string
  Reason :: string

record PersistentVolume =
  pv_Name :: string
  pv_Annotations :: "labels option"
  pv_Status :: PersistentVolumeStatus

text \<open>
  The collaborators of the jiva provisioner. An orchestrator answers with the entries of
  a Go map, given here as the list of its key/value pairs in the order the \<open>range\<close>
  loop visits them.
\<close>

record orchestrator =
  orch_Name :: string
  orch_Region :: string
  orch_StoragePlacements :: bool
  orch_NetworkPlacements :: bool
  StoragePropsReq :: "string \<Rightarrow> error + (string \<times> string) list"
  NetworkPropsReq :: "string \<Rightarrow> error + (string \<times> string) list"
  StoragePlacementReq :: "PersistentVolumeClaim \<Rightarrow> error + PersistentVolume"

record VolumePluginAspect =
  GetOrchProvider :: "error + orchestrator option"
  DefaultDatacenter :: "error + string"

record jivaUtil =
  jiva_aspect :: "VolumePluginAspect option"

text \<open>
  The package \<open>lib/nethelper\<close> is not among the files at hand either; its two functions
  are parameters of the code that calls them.
\<close>

record nethelper =
  nh_CIDRSubnet :: "string \<Rightarrow> error + string"
  nh_GetAvailableIPs :: "string \<Rightarrow> int \<Rightarrow> error + string list"

section \<open>The jiva provisioner (lib/volume/jiva/util.go)\<close>

text \<open>
  A function that takes \<open>pvc *v1.PersistentVolumeClaim\<close> and returns \<open>error\<close> changes the
  claim in place: its model returns the claim as the function leaves it together with
  the error, \<open>None\<close> for \<open>nil\<close>.
\<close>

type_synonym mutation = "PersistentVolumeClaim \<times> error option"

definition NetworkProps :: "jivaUtil \<Rightarrow> string \<Rightarrow> error + (string \<times> string) list" where
  "NetworkProps j dc =
     (case jiva_aspect j of
        None \<Rightarrow> Inl PanicNilDereference
      | Some a \<Rightarrow>
          (case GetOrchProvider a of
             Inl e \<Rightarrow> Inl e
           | Inr None \<Rightarrow> Inl PanicNilDereference
           | Inr (Some orch) \<Rightarrow>
               if \<not> orch_NetworkPlacements orch
               then Inl (NetworkOpsNotSupported (orch_Name orch))
               else NetworkPropsReq orch dc))"

definition StorageProps :: "jivaUtil \<Rightarrow> string \<Rightarrow> error + (string \<times> string) list" where
  "StorageProps j dc =
     (case jiva_aspect j of
        None \<Rightarrow> Inl PanicNilDereference
      | Some a \<Rightarrow>
          (case GetOrchProvider a of
             Inl e \<Rightarrow> Inl e
           | Inr None \<Rightarrow> Inl PanicNilDereference
           | Inr (Some orch) \<Rightarrow>
               if \<not> orch_StoragePlacements orch
               then Inl (StorageOpsNotSupported (orch_Name orch))
               else StoragePropsReq orch dc))"

definition initLabels :: "PersistentVolumeClaim \<Rightarrow> mutation" where
  "initLabels pvc =
     (if pvc_Labels pvc \<noteq> None then (pvc, None)
      else (pvc\<lparr>pvc_Labels := Some Map.empty\<rparr>, None))"

definition verifySpecs :: "PersistentVolumeClaim \<Rightarrow> mutation" where
  "verifySpecs pvc =
     (if pvc_Requests pvc = None then (pvc, Some StorageSpecsMissing) else (pvc, None))"

definition setJivaLblProps :: "constants \<Rightarrow> PersistentVolumeClaim \<Rightarrow> mutation" where
  "setJivaLblProps K pvc =
     (case pvc_Labels pvc of
        None \<Rightarrow> (pvc, Some LabelsMissing)
      | Some m \<Rightarrow>
          if lbl m (K JivaFrontEndImageLbl) = []
          then (pvc\<lparr>pvc_Labels := Some (m(K JivaFrontEndImageLbl \<mapsto> ''openebs/jiva:latest''))\<rparr>, None)
          else (pvc, None))"

definition qty :: "PersistentVolumeClaim \<Rightarrow> string \<Rightarrow> int" where
  "qty pvc k =
     (case pvc_Requests pvc of
        None \<Rightarrow> 0
      | Some r \<Rightarrow> (case r k of None \<Rightarrow> 0 | Some q \<Rightarrow> q))"

definition set_request :: "PersistentVolumeClaim \<Rightarrow> string \<Rightarrow> int \<Rightarrow> mutation" where
  "set_request pvc k q =
     (case pvc_Requests pvc of
        None \<Rightarrow> (pvc, Some PanicNilMapWrite)
      | Some r \<Rightarrow> (pvc\<lparr>pvc_Requests := Some (r(k \<mapsto> q))\<rparr>, None))"

definition getStorageSize :: "PersistentVolumeClaim \<Rightarrow> error + int" where
  "getStorageSize pvc =
     (let sz = qty pvc ''storage''
      in if sz \<le> 0 then Inl InvalidStorageSize else Inr sz)"

text \<open>\<open>err = f(pvc); if err != nil { return ..., err }\<close> followed by the rest.\<close>

definition and_then :: "mutation \<Rightarrow> (PersistentVolumeClaim \<Rightarrow> mutation) \<Rightarrow> mutation" where
  "and_then r f = (case r of (pvc, None) \<Rightarrow> f pvc | (pvc, Some e) \<Rightarrow> (pvc, Some e))"

definition setVolSize :: "string \<Rightarrow> PersistentVolumeClaim \<Rightarrow> mutation" where
  "setVolSize k pvc =
     (if qty pvc k \<le> 0
      then (case getStorageSize pvc of
              Inl e \<Rightarrow> (pvc, Some e)
            | Inr sz \<Rightarrow> set_request pvc k sz)
      else (pvc, None))"

definition setJivaSpecProps :: "constants \<Rightarrow> PersistentVolumeClaim \<Rightarrow> mutation" where
  "setJivaSpecProps K pvc =
     and_then (setVolSize (K JivaFrontEndVolSizeLbl) pvc) (setVolSize (K JivaBackEndVolSizeLbl))"

definition setRegion :: "constants \<Rightarrow> jivaUtil \<Rightarrow> PersistentVolumeClaim \<Rightarrow> mutation" where
  "setRegion K j pvc =
     (case pvc_Labels pvc of
        None \<Rightarrow> (pvc, Some LabelsNotInitialized)
      | Some m \<Rightarrow>
          if lbl m (K RegionLbl) \<noteq> [] then (pvc, None)
          else (case jiva_aspect j of
                  None \<Rightarrow> (pvc, Some AspectMissing)
                | Some a \<Rightarrow>
                    (case GetOrchProvider a of
                       Inl e \<Rightarrow> (pvc, Some e)
                     | Inr None \<Rightarrow> (pvc, Some OrchestratorMissing)
                     | Inr (Some orch) \<Rightarrow>
                         if orch_Region orch = [] then (pvc, Some RegionUndetermined)
                         else (pvc\<lparr>pvc_Labels := Some (m(K RegionLbl \<mapsto> orch_Region orch))\<rparr>, None))))"

definition setDC ::
  "constants \<Rightarrow> jivaUtil \<Rightarrow> PersistentVolumeClaim \<Rightarrow> PersistentVolumeClaim \<times> (error + string)" where
  "setDC K j pvc =
     (case pvc_Labels pvc of
        None \<Rightarrow> (pvc, Inl LabelsNotInitialized)
      | Some m \<Rightarrow>
          if lbl m (K DatacenterLbl) \<noteq> [] then (pvc, Inr (lbl m (K DatacenterLbl)))
          else (case jiva_aspect j of
                  None \<Rightarrow> (pvc, Inl PanicNilDereference)
                | Some a \<Rightarrow>
                    (case DefaultDatacenter a of
                       Inl e \<Rightarrow> (pvc, Inl e)
                     | Inr dc \<Rightarrow>
                         if dc = [] then (pvc, Inl DatacenterUndetermined)
                         else (pvc\<lparr>pvc_Labels := Some (m(K DatacenterLbl \<mapsto> dc))\<rparr>, Inr dc))))"

text \<open>
  The loop \<open>for k, _ := range cs { if pvc.Labels[string(k)] == "" { pvc.Labels[string(k)] = cs[k] } }\<close>
  over the entries of the map of defaults.
\<close>

fun setDefaults :: "(string \<times> string) list \<Rightarrow> labels \<Rightarrow> labels" where
  "setDefaults [] m = m"
| "setDefaults ((k, v) # kvs) m = setDefaults kvs (if lbl m k = [] then m(k \<mapsto> v) else m)"

definition setCS :: "constants \<Rightarrow> jivaUtil \<Rightarrow> string \<Rightarrow> PersistentVolumeClaim \<Rightarrow> mutation" where
  "setCS K j dc pvc =
     (case pvc_Labels pvc of
        None \<Rightarrow> (pvc, Some LabelsNotInitialized)
      | Some m \<Rightarrow>
          if dc = [] then (pvc, Some DatacenterNotProvided)
          else (case StorageProps j dc of
                  Inl e \<Rightarrow> (pvc, Some e)
                | Inr cs \<Rightarrow> (pvc\<lparr>pvc_Labels := Some (setDefaults cs m)\<rparr>, None)))"

text \<open>The Go expression \<open>pvc.Labels[k]\<close>; reading from a nil map yields the empty string too.\<close>

definition label_of :: "PersistentVolumeClaim \<Rightarrow> string \<Rightarrow> string" where
  "label_of pvc k = (case pvc_Labels pvc of None \<Rightarrow> [] | Some m \<Rightarrow> lbl m k)"

definition getBackendCount :: "constants \<Rightarrow> PersistentVolumeClaim \<Rightarrow> error + int" where
  "getBackendCount K pvc = Atoi (label_of pvc (K CSReplicaCountLbl))"

definition set_label :: "PersistentVolumeClaim \<Rightarrow> string \<Rightarrow> string \<Rightarrow> mutation" where
  "set_label pvc k v =
     (case pvc_Labels pvc of
        None \<Rightarrow> (pvc, Some PanicNilMapWrite)
      | Some m \<Rightarrow> (pvc\<lparr>pvc_Labels := Some (m(k \<mapsto> v))\<rparr>, None))"

text \<open>The loop \<open>strBEIPs = strBEIPs + ips[i] + ","\<close> for \<open>i\<close> from 0 to \<open>len(ips) - 1\<close>.\<close>

fun appendIPs :: "string \<Rightarrow> string list \<Rightarrow> string" where
  "appendIPs strBEIPs [] = strBEIPs"
| "appendIPs strBEIPs (ip # ips) = appendIPs (strBEIPs @ ip @ '','') ips"

definition setBackendIPsAsString ::
  "constants \<Rightarrow> string list \<Rightarrow> PersistentVolumeClaim \<Rightarrow> mutation" where
  "setBackendIPsAsString K ips pvc =
     set_label pvc (K JivaBackEndAllIPsLbl) (TrimSuffix (appendIPs [] ips) '','')"

definition setBackendIPs ::
  "constants \<Rightarrow> nethelper \<Rightarrow> string \<Rightarrow> PersistentVolumeClaim \<Rightarrow> mutation" where
  "setBackendIPs K nh networkCIDR pvc =
     (case getBackendCount K pvc of
        Inl e \<Rightarrow> (pvc, Some e)
      | Inr iBECount \<Rightarrow>
          (case nh_GetAvailableIPs nh networkCIDR iBECount of
             Inl e \<Rightarrow> (pvc, Some e)
           | Inr ips \<Rightarrow> setBackendIPsAsString K ips pvc))"

definition setCN ::
  "constants \<Rightarrow> nethelper \<Rightarrow> jivaUtil \<Rightarrow> string \<Rightarrow> PersistentVolumeClaim \<Rightarrow> mutation" where
  "setCN K nh j dc pvc =
     (case pvc_Labels pvc of
        None \<Rightarrow> (pvc, Some LabelsNotInitialized)
      | Some m \<Rightarrow>
          if dc = [] then (pvc, Some DatacenterNotProvided)
          else
            (case NetworkProps j dc of
               Inl e \<Rightarrow> (pvc, Some e)
             | Inr cn \<Rightarrow>
                 (let m1 = setDefaults cn m;
                      pvc1 = pvc\<lparr>pvc_Labels := Some m1\<rparr>;
                      networkCIDR = lbl m1 (K CNNetworkCIDRAddrLbl)
                  in if networkCIDR = [] then (pvc1, Some NetworkCIDRUndetermined)
                     else
                       (case nh_CIDRSubnet nh networkCIDR of
                          Inl e \<Rightarrow> (pvc1, Some e)
                        | Inr subnet \<Rightarrow>
                            (let m2 = m1(K CNSubnetLbl \<mapsto> subnet);
                                 pvc2 = pvc\<lparr>pvc_Labels := Some m2\<rparr>
                             in if lbl m2 (K JivaFrontEndIPLbl) = [] \<and>
                                   lbl m2 (K JivaBackEndAllIPsLbl) = []
                                then
                                  (case getBackendCount K pvc2 of
                                     Inl e \<Rightarrow> (pvc2, Some e)
                                   | Inr iBECount \<Rightarrow>
                                       (case nh_GetAvailableIPs nh networkCIDR (add_int64 1 iBECount) of
                                          Inl e \<Rightarrow> (pvc2, Some e)
                                        | Inr ips \<Rightarrow>
                                            (case ips of
                                               [] \<Rightarrow> (pvc2, Some PanicIndexOutOfRange)
                                             | ip0 # rest \<Rightarrow>
                                                 setBackendIPsAsString K rest
                                                   (pvc\<lparr>pvc_Labels :=
                                                      Some (m2(K JivaFrontEndIPLbl \<mapsto> ip0))\<rparr>))))
                                else if lbl m2 (K JivaFrontEndIPLbl) = []
                                then
                                  (case nh_GetAvailableIPs nh networkCIDR 1 of
                                     Inl e \<Rightarrow> (pvc2, Some e)
                                   | Inr ips \<Rightarrow>
                                       (case ips of
                                          [] \<Rightarrow> (pvc2, Some PanicIndexOutOfRange)
                                        | ip0 # rest \<Rightarrow>
                                            (pvc\<lparr>pvc_Labels :=
                                               Some (m2(K JivaFrontEndIPLbl \<mapsto> ip0))\<rparr>, None)))
                                else if lbl m2 (K JivaBackEndAllIPsLbl) = []
                                then setBackendIPs K nh networkCIDR pvc2
                                else (pvc2, None))))))"

text \<open>
  \<open>ProvisionStorage\<close> changes the claim and returns a volume or an error: the model returns
  the claim as it is left and the result. The orchestrator's \<open>StoragePlacementReq\<close> comes
  last; it is a collaborator outside the files at hand and is taken to read the claim
  it is handed, not to change it.
\<close>

definition ProvisionStorage ::
  "constants \<Rightarrow> nethelper \<Rightarrow> jivaUtil \<Rightarrow> PersistentVolumeClaim \<Rightarrow>
     PersistentVolumeClaim \<times> (error + PersistentVolume)" where
  "ProvisionStorage K nh j pvc =
     (case jiva_aspect j of
        None \<Rightarrow> (pvc, Inl PanicNilDereference)
      | Some a \<Rightarrow>
          (case GetOrchProvider a of
             Inl e \<Rightarrow> (pvc, Inl e)
           | Inr None \<Rightarrow> (pvc, Inl PanicNilDereference)
           | Inr (Some orch) \<Rightarrow>
               if \<not> orch_StoragePlacements orch
               then (pvc, Inl (StorageOpsNotSupported (orch_Name orch)))
               else
                 (case and_then (and_then (and_then (and_then (initLabels pvc) verifySpecs)
                              (setJivaLblProps K)) (setJivaSpecProps K)) (setRegion K j) of
                    (pvc1, Some e) \<Rightarrow> (pvc1, Inl e)
                  | (pvc1, None) \<Rightarrow>
                      (case setDC K j pvc1 of
                         (pvc2, Inl e) \<Rightarrow> (pvc2, Inl e)
                       | (pvc2, Inr dc) \<Rightarrow>
                           (case and_then (setCS K j dc pvc2) (setCN K nh j dc) of
                              (pvc3, Some e) \<Rightarrow> (pvc3, Inl e)
                            | (pvc3, None) \<Rightarrow> (pvc3, StoragePlacementReq orch pvc3))))))"

section \<open>The Nomad job model (github.com/hashicorp/nomad/api)\<close>

text \<open>
  The structures of the Nomad client library, with the fields the transformation
  writes or reads. A pointer field is an \<open>option\<close>, \<open>None\<close> for \<open>nil\<close>; a
  \<open>time.Duration\<close> is a number of nanoseconds.
\<close>

record Constraint =
  LTarget :: string
  RTarget :: string
  Operand :: string

definition NewConstraint :: "string \<Rightarrow> string \<Rightarrow> string \<Rightarrow> Constraint" where
  "NewConstraint left operand right = \<lparr>LTarget = left, RTarget = right, Operand = operand\<rparr>"

record RestartPolicy =
  Attempts :: "int option"
  Interval :: "int option"
  Delay :: "int option"
  Mode :: "string option"

record NetworkResource =
  MBits :: "int option"

record Resources =
  CPU :: "int option"
  MemoryMB :: "int option"
  Networks :: "NetworkResource list"

record TaskArtifact =
  GetterSource :: "string option"
  RelativeDest :: "string option"

record LogConfig =
  MaxFiles :: "int option"
  MaxFileSizeMB :: "int option"

record Task =
  task_Name :: string
  task_Driver :: string
  task_Resources :: "Resources option"
  task_Env :: "labels option"
  task_Artifacts :: "TaskArtifact list"
  task_Config :: "labels option"
  task_LogConfig :: "LogConfig option"

record TaskGroup =
  tg_Name :: "string option"
  tg_Count :: "int option"
  tg_Constraints :: "Constraint list"
  tg_RestartPolicy :: "RestartPolicy option"
  tg_Tasks :: "Task list"

record Job =
  job_Region :: "string option"
  job_Name :: "string option"
  job_ID :: "string option"
  job_Datacenters :: "string list"
  job_Type :: "string option"
  job_Priority :: "int option"
  job_Constraints :: "Constraint list"
  job_Meta :: "labels option"
  job_TaskGroups :: "TaskGroup list"
  job_Status :: "string option"
  job_StatusDescription :: "string option"

record Evaluation =
  eval_Priority :: int
  eval_Type :: string
  eval_TriggeredBy :: string
  eval_JobID :: string
  eval_Status :: string
  eval_StatusDescription :: string
  eval_BlockedEval :: string

text \<open>Constants of the Nomad packages \<open>api\<close>, \<open>structs\<close> and of Go's \<open>time\<close>.\<close>

definition JobTypeService :: string where
  "JobTypeService = ''service''"

definition JobStatusRunning :: string where
  "JobStatusRunning = ''running''"

definition Second :: int where
  "Second = 1000000000"

definition Minute :: int where
  "Minute = 60 * Second"

section \<open>The Nomad transformations (lib/orchprovider/nomad/helper\_funcs.go)\<close>

definition PvcToJobName :: "PersistentVolumeClaim option \<Rightarrow> error + string" where
  "PvcToJobName pvc =
     (case pvc of
        None \<Rightarrow> Inl NilPvc
      | Some c \<Rightarrow> if pvc_Name c = [] then Inl MissingVSMName else Inr (pvc_Name c))"

text \<open>
  The loop of \<open>setBEIPs\<close>: for \<open>i\<close> from 0 below \<open>iJivaBECount\<close> the key is the backend-IP
  prefix followed by \<open>i\<close> in decimal and the value is \<open>jivaBeIPArr[i]\<close>; both maps get the
  entry. It runs only once the length of the array is known to be the count.
\<close>

function setBEIPs_loop ::
  "constants \<Rightarrow> string list \<Rightarrow> int \<Rightarrow> int \<Rightarrow> labels \<times> labels \<Rightarrow> labels \<times> labels" where
  "setBEIPs_loop K jivaBeIPArr iJivaBECount i (beEnv, jobMeta) =
     (if i < iJivaBECount
      then (let k = K JivaBackEndIPPrefixLbl @ Itoa i;
                v = jivaBeIPArr ! nat i
            in setBEIPs_loop K jivaBeIPArr iJivaBECount (i + 1)
                 (beEnv(k \<mapsto> v), jobMeta(k \<mapsto> v)))
      else (beEnv, jobMeta))"
  by pat_completeness auto
termination
  by (relation "measure (\<lambda>(K, arr, n, i, maps). nat (n - i))") auto

declare setBEIPs_loop.simps [simp del]

definition setBEIPs ::
  "constants \<Rightarrow> labels \<Rightarrow> labels \<Rightarrow> string list \<Rightarrow> int \<Rightarrow> error + labels \<times> labels" where
  "setBEIPs K beEnv jobMeta jivaBeIPArr iJivaBECount =
     (if iJivaBECount = 0 then Inl InvalidReplicaCountZero
      else if int (length jivaBeIPArr) \<noteq> iJivaBECount
      then Inl (ReplicaIPCountMismatch (int (length jivaBeIPArr)) iJivaBECount)
      else Inr (setBEIPs_loop K jivaBeIPArr iJivaBECount 0
                  (beEnv, jobMeta(K PVPReplicaCountLbl \<mapsto> Itoa iJivaBECount))))"

text \<open>The three map literals of \<open>PvcToJob\<close>, entries in the order they are written.\<close>

definition jobMeta_of :: "constants \<Rightarrow> string \<Rightarrow> labels \<Rightarrow> labels" where
  "jobMeta_of K name m =
     [K JivaBackEndVolSizeLbl \<mapsto> lbl m (K PVPStorageSizeLbl),
      K JivaFrontEndIPLbl \<mapsto> lbl m (K PVPControllerIPsLbl),
      K JivaTargetPortalLbl \<mapsto> lbl m (K PVPControllerIPsLbl) @ '':'' @ K JivaISCSIPortDef,
      K JivaIqnLbl \<mapsto> K JivaIqnFormatPrefix @ '':'' @ name]"

definition feEnv_of :: "constants \<Rightarrow> string \<Rightarrow> labels \<Rightarrow> labels" where
  "feEnv_of K name m =
     [''JIVA_CTL_NAME'' \<mapsto> name @ ''-'' @ ''fe'' @ ''${NOMAD_ALLOC_INDEX}'',
      ''JIVA_CTL_VERSION'' \<mapsto> lbl m (K PVPControllerImageLbl),
      ''JIVA_CTL_VOLNAME'' \<mapsto> name,
      ''JIVA_CTL_VOLSIZE'' \<mapsto> lbl m (K PVPStorageSizeLbl),
      ''JIVA_CTL_IP'' \<mapsto> lbl m (K PVPControllerIPsLbl),
      ''JIVA_CTL_SUBNET'' \<mapsto> lbl m (K CNSubnetLbl),
      ''JIVA_CTL_IFACE'' \<mapsto> lbl m (K CNInterfaceLbl)]"

definition beEnv_of :: "constants \<Rightarrow> string \<Rightarrow> labels \<Rightarrow> labels" where
  "beEnv_of K name m =
     [''NOMAD_ALLOC_INDEX'' \<mapsto> ''${NOMAD_ALLOC_INDEX}'',
      ''JIVA_REP_NAME'' \<mapsto> name @ ''-'' @ ''be'' @ ''${NOMAD_ALLOC_INDEX}'',
      ''JIVA_CTL_IP'' \<mapsto> lbl m (K PVPControllerIPsLbl),
      ''JIVA_REP_VOLNAME'' \<mapsto> name,
      ''JIVA_REP_VOLSIZE'' \<mapsto> lbl m (K PVPStorageSizeLbl),
      ''JIVA_REP_VOLSTORE'' \<mapsto>
         lbl m (K PVPPersistenceLocationLbl) @ name @ ''/'' @ ''be'' @ ''${NOMAD_ALLOC_INDEX}'',
      ''JIVA_REP_VERSION'' \<mapsto> lbl m (K PVPControllerImageLbl),
      ''JIVA_REP_NETWORK'' \<mapsto> lbl m (K CNTypeLbl),
      ''JIVA_REP_IFACE'' \<mapsto> lbl m (K CNInterfaceLbl),
      ''JIVA_REP_SUBNET'' \<mapsto> lbl m (K CNSubnetLbl)]"

text \<open>The parts both task groups share.\<close>

definition restartPolicy :: RestartPolicy where
  "restartPolicy =
     \<lparr>Attempts = Some 3, Interval = Some (5 * Minute), Delay = Some (25 * Second),
      Mode = Some ''delay''\<rparr>"

definition taskResources :: Resources where
  "taskResources = \<lparr>CPU = Some 50, MemoryMB = Some 50, Networks = [\<lparr>MBits = Some 50\<rparr>]\<rparr>"

definition jivaTask :: "string \<Rightarrow> labels \<Rightarrow> string \<Rightarrow> Task" where
  "jivaTask name env script =
     \<lparr>task_Name = name,
      task_Driver = ''raw_exec'',
      task_Resources = Some taskResources,
      task_Env = Some env,
      task_Artifacts =
        [\<lparr>GetterSource =
            Some (''https://raw.githubusercontent.com/openebs/jiva/master/scripts/'' @ script),
          RelativeDest = Some ''local/''\<rparr>],
      task_Config = Some [''command'' \<mapsto> script],
      task_LogConfig = Some \<lparr>MaxFiles = Some 3, MaxFileSizeMB = Some 1\<rparr>\<rparr>"

text \<open>The job literal that \<open>PvcToJob\<close> returns.\<close>

definition jivaJob ::
  "string \<Rightarrow> string \<Rightarrow> string \<Rightarrow> int \<Rightarrow> labels \<Rightarrow> labels \<Rightarrow> labels \<Rightarrow> Job" where
  "jivaJob name region dc iJivaBECount jobMeta feEnv beEnv =
     \<lparr>job_Region = Some region,
      job_Name = Some name,
      job_ID = Some name,
      job_Datacenters = [dc],
      job_Type = Some JobTypeService,
      job_Priority = Some 50,
      job_Constraints = [NewConstraint ''${attr.kernel.name}'' ''='' ''linux''],
      job_Meta = Some jobMeta,
      job_TaskGroups =
        [\<lparr>tg_Name = Some (''fe'' @ ''-'' @ ''jiva-pod''),
          tg_Count = Some 1,
          tg_Constraints = [],
          tg_RestartPolicy = Some restartPolicy,
          tg_Tasks = [jivaTask ''fe'' feEnv ''launch-jiva-ctl-with-ip'']\<rparr>,
         \<lparr>tg_Name = Some (''be'' @ ''-'' @ ''jiva-pod''),
          tg_Count = Some iJivaBECount,
          tg_Constraints = [NewConstraint [] ''distinct_hosts'' ''true''],
          tg_RestartPolicy = Some restartPolicy,
          tg_Tasks = [jivaTask ''be'' beEnv ''launch-jiva-rep-with-ip'']\<rparr>],
      job_Status = None,
      job_StatusDescription = None\<rparr>"

definition PvcToJob :: "constants \<Rightarrow> PersistentVolumeClaim option \<Rightarrow> error + Job" where
  "PvcToJob K pvc =
     (case pvc of
        None \<Rightarrow> Inl NilPvc
      | Some c \<Rightarrow>
          if pvc_Name c = [] then Inl MissingVSMName
          else
            (case pvc_Labels c of
               None \<Rightarrow> Inl MissingLabels
             | Some m \<Rightarrow>
                 if lbl m (K OrchRegionLbl) = [] then Inl (MissingProperty ''region'')
                 else if lbl m (K OrchDCLbl) = [] then Inl (MissingProperty ''datacenter'')
                 else if lbl m (K PVPControllerImageLbl) = []
                 then Inl (MissingProperty ''controller image'')
                 else if lbl m (K PVPControllerIPsLbl) = []
                 then Inl (MissingProperty ''controller IP(s)'')
                 else if lbl m (K PVPReplicaIPsLbl) = [] then Inl (MissingProperty ''replica IPs'')
                 else if lbl m (K CNTypeLbl) = [] then Inl (MissingProperty ''CN type'')
                 else if lbl m (K CNSubnetLbl) = [] then Inl (MissingProperty ''CN subnet'')
                 else if lbl m (K CNInterfaceLbl) = [] then Inl (MissingProperty ''CN interface'')
                 else if lbl m (K PVPPersistenceLocationLbl) = []
                 then Inl (MissingProperty ''persistent location'')
                 else if lbl m (K PVPStorageSizeLbl) = [] then Inl (MissingProperty ''storage size'')
                 else
                   (case Atoi (lbl m (K PVPReplicaCountLbl)) of
                      Inl e \<Rightarrow> Inl e
                    | Inr iJivaBECount \<Rightarrow>
                        (case setBEIPs K (beEnv_of K (pvc_Name c) m) (jobMeta_of K (pvc_Name c) m)
                                (Split (lbl m (K PVPReplicaIPsLbl)) CHR '','') iJivaBECount of
                           Inl e \<Rightarrow> Inl e
                         | Inr (beEnv, jobMeta) \<Rightarrow>
                             Inr (jivaJob (pvc_Name c) (lbl m (K OrchRegionLbl)) (lbl m (K OrchDCLbl))
                                    iJivaBECount jobMeta (feEnv_of K (pvc_Name c) m) beEnv)))))"

definition JobEvalToPv :: "string \<Rightarrow> Evaluation option \<Rightarrow> error + PersistentVolume" where
  "JobEvalToPv jobName eval =
     (case eval of
        None \<Rightarrow> Inl NilJobEval
      | Some e \<Rightarrow>
          Inr \<lparr>pv_Name = jobName,
               pv_Annotations =
                 Some [''evalpriority'' \<mapsto> Itoa (eval_Priority e),
                       ''evaltype'' \<mapsto> eval_Type e,
                       ''evaltrigger'' \<mapsto> eval_TriggeredBy e,
                       ''evaljob'' \<mapsto> eval_JobID e,
                       ''evalstatus'' \<mapsto> eval_Status e,
                       ''evalstatusdesc'' \<mapsto> eval_StatusDescription e,
                       ''evalblockedeval'' \<mapsto> eval_BlockedEval e],
               pv_Status = \<lparr>Message = eval_StatusDescription e, Reason = eval_Status e\<rparr>\<rparr>)"

definition PvToJob :: "PersistentVolume option \<Rightarrow> error + Job" where
  "PvToJob pv =
     (case pv of
        None \<Rightarrow> Inl NilPv
      | Some v \<Rightarrow>
          Inr \<lparr>job_Region = None, job_Name = Some (pv_Name v), job_ID = Some (pv_Name v),
               job_Datacenters = [], job_Type = None, job_Priority = None, job_Constraints = [],
               job_Meta = None, job_TaskGroups = [], job_Status = None,
               job_StatusDescription = None\<rparr>)"

text \<open>
  \<open>JobToPv\<close> reads \<open>*job.Name\<close>, \<open>*job.StatusDescription\<close> and \<open>*job.Status\<close> in this order;
  reading through a nil pointer panics. The annotations of a fresh volume are nil and
  are assigned only for a running job.
\<close>

definition JobToPv :: "Job option \<Rightarrow> error + PersistentVolume" where
  "JobToPv job =
     (case job of
        None \<Rightarrow> Inl NilJob
      | Some j \<Rightarrow>
          (case job_Name j of
             None \<Rightarrow> Inl PanicNilDereference
           | Some name \<Rightarrow>
               (case job_StatusDescription j of
                  None \<Rightarrow> Inl PanicNilDereference
                | Some description \<Rightarrow>
                    (case job_Status j of
                       None \<Rightarrow> Inl PanicNilDereference
                     | Some status \<Rightarrow>
                         Inr \<lparr>pv_Name = name,
                              pv_Annotations =
                                (if status = JobStatusRunning then job_Meta j else None),
                              pv_Status = \<lparr>Message = description, Reason = status\<rparr>\<rparr>))))"

section \<open>The address helper (lib/nethelper)\<close>

text \<open>
  IPv4 addresses are numbers below \<open>2 ^ 32\<close>, written as four decimal octets separated
  by dots; a CIDR is an address, a slash and a prefix length of at most 32.
\<close>

definition ip_string :: "nat \<Rightarrow> string" where
  "ip_string a =
     utoa (a div 16777216) @ ''.'' @ utoa (a div 65536 mod 256) @ ''.'' @
     utoa (a div 256 mod 256) @ ''.'' @ utoa (a mod 256)"

definition parse_octet :: "string \<Rightarrow> nat option" where
  "parse_octet s =
     (case parse_digits s of None \<Rightarrow> None | Some n \<Rightarrow> if n \<le> 255 then Some n else None)"

definition parse_ip :: "string \<Rightarrow> nat option" where
  "parse_ip s =
     (case map parse_octet (Split s CHR ''.'') of
        [Some o1, Some o2, Some o3, Some o4] \<Rightarrow> Some (((o1 * 256 + o2) * 256 + o3) * 256 + o4)
      | _ \<Rightarrow> None)"

definition parse_cidr :: "string \<Rightarrow> (nat \<times> nat) option" where
  "parse_cidr s =
     (case Split s CHR ''/'' of
        [ip, len] \<Rightarrow>
          (case (parse_ip ip, parse_digits len) of
             (Some a, Some p) \<Rightarrow> if p \<le> 32 then Some (a, p) else None
           | _ \<Rightarrow> None)
      | _ \<Rightarrow> None)"

text \<open>
  The network address of an address under a prefix length clears the host bits; the
  broadcast address sets them. The usable host addresses lie strictly between the two.
\<close>

definition network_address :: "nat \<Rightarrow> nat \<Rightarrow> nat" where
  "network_address a p = a - a mod 2 ^ (32 - p)"

definition broadcast_address :: "nat \<Rightarrow> nat \<Rightarrow> nat" where
  "broadcast_address a p = network_address a p + 2 ^ (32 - p) - 1"

definition usable_count :: "nat \<Rightarrow> nat" where
  "usable_count p = 2 ^ (32 - p) - 2"

definition in_subnet :: "string \<Rightarrow> string \<Rightarrow> bool" where
  "in_subnet cidr ip =
     (case parse_cidr cidr of
        None \<Rightarrow> False
      | Some (a, p) \<Rightarrow>
          (case parse_ip ip of
             None \<Rightarrow> False
           | Some x \<Rightarrow> network_address a p < x \<and> x < broadcast_address a p))"

text \<open>
  Modelled from the spec: \<open>nethelper.GetAvailableIPs\<close>, whose source is not among the
  files at hand. Section 4.2: given a subnet in CIDR notation and a required count k,
  produce k distinct usable host addresses from that subnet, or fail with
  AddressPoolExhausted if fewer than k usable addresses exist, or InvalidCIDR if the
  subnet cannot be parsed; addresses are drawn in ascending order from the usable host
  range of the subnet, excluding network and broadcast addresses.
\<close>

definition GetAvailableIPs :: "string \<Rightarrow> int \<Rightarrow> error + string list" where
  "GetAvailableIPs cidr k =
     (case parse_cidr cidr of
        None \<Rightarrow> Inl InvalidCIDR
      | Some (a, p) \<Rightarrow>
          if int (usable_count p) < k then Inl AddressPoolExhausted
          else Inr (map ip_string
                      [network_address a p + 1 ..< network_address a p + 1 + nat k]))"

text \<open>
  Modelled from the spec: \<open>nethelper.CIDRSubnet\<close>, whose source is not among the files at
  hand. Sections 4.2 and 6: \<open>subnetOf(networkCIDR)\<close> derives a usable subnet
  deterministically from the network CIDR, and a CIDR that cannot be parsed is an
  InvalidCIDR error. The model takes the subnet that spans the network: its network
  address and its prefix length.
\<close>

definition CIDRSubnet :: "string \<Rightarrow> error + string" where
  "CIDRSubnet cidr =
     (case parse_cidr cidr of
        None \<Rightarrow> Inl InvalidCIDR
      | Some (a, p) \<Rightarrow> Inr (ip_string (network_address a p) @ ''/'' @ utoa p))"

definition nethelper_spec :: nethelper where
  "nethelper_spec = \<lparr>nh_CIDRSubnet = CIDRSubnet, nh_GetAvailableIPs = GetAvailableIPs\<rparr>"

section \<open>Vocabulary of the properties\<close>

text \<open>
  The label keys \<open>PvcToJob\<close> requires, in the order in which it checks them, each with
  the words its error message uses for the property.
\<close>

definition required_properties :: "constants \<Rightarrow> (string \<times> string) list" where
  "required_properties K =
     [(K OrchRegionLbl, ''region''),
      (K OrchDCLbl, ''datacenter''),
      (K PVPControllerImageLbl, ''controller image''),
      (K PVPControllerIPsLbl, ''controller IP(s)''),
      (K PVPReplicaIPsLbl, ''replica IPs''),
      (K CNTypeLbl, ''CN type''),
      (K CNSubnetLbl, ''CN subnet''),
      (K CNInterfaceLbl, ''CN interface''),
      (K PVPPersistenceLocationLbl, ''persistent location''),
      (K PVPStorageSizeLbl, ''storage size'')]"

text \<open>The first required property, in that order, that the labels lack.\<close>

definition first_absent :: "constants \<Rightarrow> labels \<Rightarrow> (string \<times> string) option" where
  "first_absent K m = find (\<lambda>(k, what). lbl m k = []) (required_properties K)"

text \<open>The strings of a list with a comma between neighbours.\<close>

fun join_commas :: "string list \<Rightarrow> string" where
  "join_commas [] = []"
| "join_commas [s] = s"
| "join_commas (s # t # ss) = s @ '','' @ join_commas (t # ss)"

section \<open>Inputs used to exercise the theorems\<close>

definition eval_complete :: Evaluation where
  "eval_complete =
     \<lparr>eval_Priority = 50, eval_Type = ''service'', eval_TriggeredBy = ''job-register'',
      eval_JobID = ''vol1'', eval_Status = ''complete'', eval_StatusDescription = ''ok'',
      eval_BlockedEval = []\<rparr>"

definition job_with_status :: "string \<Rightarrow> Job" where
  "job_with_status status =
     \<lparr>job_Region = Some ''global'', job_Name = Some ''vol1'', job_ID = Some ''vol1'',
      job_Datacenters = [''dc1''], job_Type = Some JobTypeService, job_Priority = Some 50,
      job_Constraints = [], job_Meta = Some [''replica-count'' \<mapsto> ''2''],
      job_TaskGroups = [], job_Status = Some status, job_StatusDescription = Some ''ok''\<rparr>"

definition pv_vol1 :: PersistentVolume where
  "pv_vol1 = \<lparr>pv_Name = ''vol1'', pv_Annotations = None,
               pv_Status = \<lparr>Message = [], Reason = []\<rparr>\<rparr>"

text \<open>A choice of distinct strings for the constants of \<open>lib/api/v1\<close>.\<close>

definition example_constants :: constants where
  "example_constants c =
     (case c of
        JivaFrontEndImageLbl \<Rightarrow> ''fe.jiva/image''
      | JivaFrontEndVolSizeLbl \<Rightarrow> ''fe.jiva/vol-size''
      | JivaBackEndVolSizeLbl \<Rightarrow> ''be.jiva/vol-size''
      | JivaFrontEndIPLbl \<Rightarrow> ''fe.jiva/ip''
      | JivaBackEndAllIPsLbl \<Rightarrow> ''be.jiva/all-ips''
      | JivaBackEndIPPrefixLbl \<Rightarrow> ''JIVA_REP_IP_''
      | JivaTargetPortalLbl \<Rightarrow> ''targetportal''
      | JivaIqnLbl \<Rightarrow> ''iqn''
      | RegionLbl \<Rightarrow> ''region''
      | DatacenterLbl \<Rightarrow> ''datacenter''
      | CSReplicaCountLbl \<Rightarrow> ''cs/replica-count''
      | CNTypeLbl \<Rightarrow> ''cn/type''
      | CNNetworkCIDRAddrLbl \<Rightarrow> ''cn/network-cidr-addr''
      | CNSubnetLbl \<Rightarrow> ''cn/subnet''
      | CNInterfaceLbl \<Rightarrow> ''cn/interface''
      | OrchRegionLbl \<Rightarrow> ''orch/region''
      | OrchDCLbl \<Rightarrow> ''orch/dc''
      | PVPControllerImageLbl \<Rightarrow> ''pvp/controller-image''
      | PVPControllerIPsLbl \<Rightarrow> ''pvp/controller-ips''
      | PVPReplicaIPsLbl \<Rightarrow> ''pvp/replica-ips''
      | PVPReplicaCountLbl \<Rightarrow> ''pvp/replica-count''
      | PVPPersistenceLocationLbl \<Rightarrow> ''pvp/persistence-location''
      | PVPStorageSizeLbl \<Rightarrow> ''pvp/storage-size''
      | JivaISCSIPortDef \<Rightarrow> ''3260''
      | JivaIqnFormatPrefix \<Rightarrow> ''iqn.2016-09.com.openebs.jiva'')"

text \<open>
  The claim of the specification's example: volume "vol1", two replicas at 10.0.0.5 and
  10.0.0.6, subnet 10.0.0.0/24, 5Gi of storage, and the other required properties.
\<close>

definition vol1_labels :: labels where
  "vol1_labels =
     [example_constants OrchRegionLbl \<mapsto> ''global'',
      example_constants OrchDCLbl \<mapsto> ''dc1'',
      example_constants PVPControllerImageLbl \<mapsto> ''openebs/jiva:latest'',
      example_constants PVPControllerIPsLbl \<mapsto> ''10.0.0.4'',
      example_constants PVPReplicaIPsLbl \<mapsto> ''10.0.0.5,10.0.0.6'',
      example_constants PVPReplicaCountLbl \<mapsto> ''2'',
      example_constants CNTypeLbl \<mapsto> ''host'',
      example_constants CNSubnetLbl \<mapsto> ''10.0.0.0/24'',
      example_constants CNInterfaceLbl \<mapsto> ''enp0s8'',
      example_constants PVPPersistenceLocationLbl \<mapsto> ''/tmp/'',
      example_constants PVPStorageSizeLbl \<mapsto> ''5Gi'']"

definition vol1 :: PersistentVolumeClaim where
  "vol1 = \<lparr>pvc_Name = ''vol1'', pvc_Labels = Some vol1_labels,
            pvc_Requests = Some [''storage'' \<mapsto> 5]\<rparr>"

text \<open>The same claim without the controller image.\<close>

definition vol1_no_image :: PersistentVolumeClaim where
  "vol1_no_image =
     vol1\<lparr>pvc_Labels := Some (vol1_labels(example_constants PVPControllerImageLbl := None))\<rparr>"

text \<open>The same claim without the replica count.\<close>

definition vol1_no_count :: PersistentVolumeClaim where
  "vol1_no_count =
     vol1\<lparr>pvc_Labels := Some (vol1_labels(example_constants PVPReplicaCountLbl := None))\<rparr>"

text \<open>
  An orchestrator that knows the datacenter "dc1" with the settings of the sample
  configuration of \<open>lib/orchprovider/nomad/util.go\<close>, and the jiva provisioner on top of it.
\<close>

definition cn_dc1 :: "(string \<times> string) list" where
  "cn_dc1 =
     [(example_constants CNTypeLbl, ''host''),
      (example_constants CNNetworkCIDRAddrLbl, ''172.28.128.1/24''),
      (example_constants CNInterfaceLbl, ''enp0s8'')]"

definition cs_dc1 :: "(string \<times> string) list" where
  "cs_dc1 =
     [(example_constants PVPPersistenceLocationLbl, ''/tmp/''),
      (example_constants PVPReplicaCountLbl, ''2'')]"

definition nomad_dc1 :: orchestrator where
  "nomad_dc1 =
     \<lparr>orch_Name = ''nomad'', orch_Region = ''global'',
      orch_StoragePlacements = True, orch_NetworkPlacements = True,
      StoragePropsReq =
        (\<lambda>dc. if dc = ''dc1'' then Inr cs_dc1 else Inl (External ''No details available for dc'')),
      NetworkPropsReq =
        (\<lambda>dc. if dc = ''dc1'' then Inr cn_dc1 else Inl (External ''No details available for dc'')),
      StoragePlacementReq =
        (\<lambda>pvc. Inr \<lparr>pv_Name = pvc_Name pvc, pv_Annotations = None,
                     pv_Status = \<lparr>Message = [], Reason = []\<rparr>\<rparr>)\<rparr>"

definition jiva_dc1 :: jivaUtil where
  "jiva_dc1 =
     \<lparr>jiva_aspect = Some \<lparr>GetOrchProvider = Inr (Some nomad_dc1), DefaultDatacenter = Inr ''dc1''\<rparr>\<rparr>"

text \<open>
  The example claim before any address is allocated: it names its network, 10.0.0.0/24,
  and its replica count, 2.
\<close>

definition unallocated_labels :: labels where
  "unallocated_labels =
     vol1_labels(example_constants CNNetworkCIDRAddrLbl \<mapsto> ''10.0.0.0/24'',
                 example_constants CSReplicaCountLbl \<mapsto> ''2'')"

definition vol1_unallocated :: PersistentVolumeClaim where
  "vol1_unallocated = vol1\<lparr>pvc_Labels := Some unallocated_labels\<rparr>"

text \<open>The same claim with a frontend IP only, and with a backend IP list only.\<close>

definition vol1_frontend_only :: PersistentVolumeClaim where
  "vol1_frontend_only =
     vol1\<lparr>pvc_Labels := Some (unallocated_labels(example_constants JivaFrontEndIPLbl \<mapsto> ''10.0.0.9''))\<rparr>"

definition vol1_backends_only :: PersistentVolumeClaim where
  "vol1_backends_only =
     vol1\<lparr>pvc_Labels :=
       Some (unallocated_labels(example_constants JivaBackEndAllIPsLbl \<mapsto> ''10.0.0.5,10.0.0.6''))\<rparr>"


text \<open>
  The same claim with one replica IP where the replica count is 2, under the key that
  \<open>setCN\<close> reads and under the key that \<open>PvcToJob\<close> reads.
\<close>

definition vol1_mismatch :: PersistentVolumeClaim where
  "vol1_mismatch =
     vol1\<lparr>pvc_Labels :=
       Some (unallocated_labels(example_constants JivaBackEndAllIPsLbl \<mapsto> ''10.0.0.5'',
                                example_constants PVPReplicaIPsLbl \<mapsto> ''10.0.0.5''))\<rparr>"

text \<open>
  The example claim with every property that resolution fills already on it, the subnet
  being the one derived from its network; and the same claim with a subnet of its own
  choice, the lower half of the network.
\<close>

definition resolved_labels :: labels where
  "resolved_labels =
     unallocated_labels
       (example_constants RegionLbl \<mapsto> ''global'',
        example_constants DatacenterLbl \<mapsto> ''dc1'',
        example_constants JivaFrontEndImageLbl \<mapsto> ''openebs/jiva:latest'',
        example_constants JivaFrontEndIPLbl \<mapsto> ''10.0.0.4'',
        example_constants JivaBackEndAllIPsLbl \<mapsto> ''10.0.0.5,10.0.0.6'')"

definition resolved_requests :: requests where
  "resolved_requests =
     [''storage'' \<mapsto> 5,
      example_constants JivaFrontEndVolSizeLbl \<mapsto> 5,
      example_constants JivaBackEndVolSizeLbl \<mapsto> 5]"

definition vol1_resolved :: PersistentVolumeClaim where
  "vol1_resolved =
     \<lparr>pvc_Name = ''vol1'', pvc_Labels = Some resolved_labels,
      pvc_Requests = Some resolved_requests\<rparr>"

definition vol1_own_subnet :: PersistentVolumeClaim where
  "vol1_own_subnet =
     vol1_resolved\<lparr>pvc_Labels :=
       Some (resolved_labels(example_constants CNSubnetLbl \<mapsto> ''10.0.0.0/25''))\<rparr>"

section \<open>Decimal numbers\<close>

lemma digit_val_digit_char: "d < 10 \<Longrightarrow> digit_val (digit_char d) = Some d"
  by (simp add: digit_val_def digit_char_def)

lemma digit_char_no_separator:
  "digit_char d \<noteq> CHR ''-''" "digit_char d \<noteq> CHR ''+''"
  "digit_char d \<noteq> CHR ''.''" "digit_char d \<noteq> CHR '',''" "digit_char d \<noteq> CHR ''/''"
  by (simp_all add: digit_char_def)

lemma digits_val_append:
  "digits_val acc (xs @ ys) =
     (case digits_val acc xs of None \<Rightarrow> None | Some n \<Rightarrow> digits_val n ys)"
  by (induction xs arbitrary: acc) (auto split: option.splits)

lemma digits_val_utoa: "digits_val 0 (utoa n) = Some n"
proof (induction n rule: utoa.induct)
  case (1 n)
  show ?case
  proof (cases "n < 10")
    case True
    then show ?thesis by (subst utoa.simps) (simp add: digit_val_digit_char)
  next
    case False
    with 1 have "digits_val 0 (utoa (n div 10)) = Some (n div 10)" by simp
    with False show ?thesis
      by (subst utoa.simps) (simp add: digits_val_append digit_val_digit_char)
  qed
qed

lemma utoa_not_Nil: "utoa n \<noteq> []"
  by (subst utoa.simps) simp

lemma parse_digits_utoa: "parse_digits (utoa n) = Some n"
  by (simp add: parse_digits_def utoa_not_Nil digits_val_utoa)

lemma utoa_starts_with_digit: "\<exists>d r. utoa n = digit_char d # r"
proof (induction n rule: utoa.induct)
  case (1 n)
  show ?case
  proof (cases "n < 10")
    case True
    then show ?thesis by (subst utoa.simps) auto
  next
    case False
    with 1 obtain d r where "utoa (n div 10) = digit_char d # r" by auto
    with False show ?thesis by (subst utoa.simps) auto
  qed
qed

lemma ParseUint_digits_append:
  "ParseUint_digits s0 n (xs @ ys) =
     (case ParseUint_digits s0 n xs of Inl e \<Rightarrow> Inl e | Inr n' \<Rightarrow> ParseUint_digits s0 n' ys)"
  by (induction xs arbitrary: n) (simp_all split: option.splits)

lemma ParseUint_digits_utoa: "n < 2 ^ 64 \<Longrightarrow> ParseUint_digits s0 0 (utoa n) = Inr n"
proof (induction n rule: utoa.induct)
  case (1 n)
  show ?case
  proof (cases "n < 10")
    case True
    then show ?thesis by (subst utoa.simps) (simp add: digit_val_digit_char)
  next
    case False
    from "1.prems" have small: "n div 10 < 2 ^ 64" by simp
    with 1 False have ih: "ParseUint_digits s0 0 (utoa (n div 10)) = Inr (n div 10)" by simp
    from "1.prems" have cut: "\<not> 1844674407370955162 \<le> n div 10" by simp
    from "1.prems" have top: "\<not> 18446744073709551615 < 10 * (n div 10) + n mod 10" by simp
    from False ih cut top show ?thesis
      by (subst utoa.simps) (simp add: ParseUint_digits_append digit_val_digit_char)
  qed
qed

text \<open>Reading back what \<open>Itoa\<close> wrote gives the number, for every value of Go's \<open>int\<close>.\<close>

lemma Atoi_Itoa:
  assumes "- (2 ^ 63) \<le> i" "i < 2 ^ 63"
  shows "Atoi (Itoa i) = Inr i"
proof (cases "i < 0")
  case True
  with assms have "nat (- i) < 2 ^ 64" by simp
  then have "ParseUint_digits (CHR ''-'' # utoa (nat (- i))) 0 (utoa (nat (- i))) = Inr (nat (- i))"
    by (rule ParseUint_digits_utoa)
  with True assms show ?thesis
    by (simp add: Atoi_def Itoa_def utoa_not_Nil)
next
  case False
  obtain d r where dr: "utoa (nat i) = digit_char d # r"
    using utoa_starts_with_digit by blast
  from assms have "nat i < 2 ^ 64" by simp
  then have "ParseUint_digits (utoa (nat i)) 0 (utoa (nat i)) = Inr (nat i)"
    by (rule ParseUint_digits_utoa)
  then have "ParseUint_digits (digit_char d # r) 0 (digit_char d # r) = Inr (nat i)"
    by (simp only: dr)
  with False assms dr show ?thesis
    by (simp add: Atoi_def Itoa_def digit_char_no_separator)
qed

lemma Itoa_50: "Itoa 50 = ''50''"
  by (simp add: Itoa_def utoa.simps digit_char_def)

section \<open>The status reconciler\<close>

text \<open>
  C7. For every evaluation record that is not nil, \<open>JobEvalToPv\<close> returns a volume named
  after the job whose status message is the evaluation's status description and whose
  reason is the evaluation's status. Its annotations are exactly the seven entries for
  priority, type, trigger, job id, status, status description and blocked evaluation;
  the priority is written in decimal, so that reading it back gives the number.
\<close>

theorem JobEvalToPv_status:
  "\<exists>pv ann. JobEvalToPv jobName (Some e) = Inr pv \<and>
     pv_Name pv = jobName \<and>
     Message (pv_Status pv) = eval_StatusDescription e \<and>
     Reason (pv_Status pv) = eval_Status e \<and>
     pv_Annotations pv = Some ann \<and>
     ann ''evalpriority'' = Some (Itoa (eval_Priority e)) \<and>
     ann ''evaltype'' = Some (eval_Type e) \<and>
     ann ''evaltrigger'' = Some (eval_TriggeredBy e) \<and>
     ann ''evaljob'' = Some (eval_JobID e) \<and>
     ann ''evalstatus'' = Some (eval_Status e) \<and>
     ann ''evalstatusdesc'' = Some (eval_StatusDescription e) \<and>
     ann ''evalblockedeval'' = Some (eval_BlockedEval e) \<and>
     dom ann = {''evalpriority'', ''evaltype'', ''evaltrigger'', ''evaljob'', ''evalstatus'',
                ''evalstatusdesc'', ''evalblockedeval''} \<and>
     (- (2 ^ 63) \<le> eval_Priority e \<and> eval_Priority e < 2 ^ 63 \<longrightarrow>
        Atoi (lbl ann ''evalpriority'') = Inr (eval_Priority e))"
  by (simp add: JobEvalToPv_def lbl_def Atoi_Itoa insert_commute)

text \<open>
  The evaluation with status "complete", description "ok" and priority 50 gives the
  message "ok", the reason "complete" and the annotations evalstatus "complete" and
  evalpriority "50".
\<close>

theorem JobEvalToPv_status_witness:
  "\<exists>pv ann. JobEvalToPv ''vol1'' (Some eval_complete) = Inr pv \<and>
     Message (pv_Status pv) = ''ok'' \<and> Reason (pv_Status pv) = ''complete'' \<and>
     pv_Annotations pv = Some ann \<and>
     ann ''evalstatus'' = Some ''complete'' \<and> ann ''evalpriority'' = Some ''50'' \<and>
     Atoi (lbl ann ''evalpriority'') = Inr 50"
proof -
  obtain pv ann where h: "JobEvalToPv ''vol1'' (Some eval_complete) = Inr pv"
     "Message (pv_Status pv) = eval_StatusDescription eval_complete"
     "Reason (pv_Status pv) = eval_Status eval_complete"
     "pv_Annotations pv = Some ann"
     "ann ''evalpriority'' = Some (Itoa (eval_Priority eval_complete))"
     "ann ''evalstatus'' = Some (eval_Status eval_complete)"
     "(- (2 ^ 63) \<le> eval_Priority eval_complete \<and> eval_Priority eval_complete < 2 ^ 63 \<longrightarrow>
        Atoi (lbl ann ''evalpriority'') = Inr (eval_Priority eval_complete))"
    using JobEvalToPv_status [of "''vol1''" eval_complete]
    by (elim exE conjE) (rule that; assumption)
  from h(7) have "Atoi (lbl ann ''evalpriority'') = Inr 50" by (simp add: eval_complete_def)
  with h Itoa_50 show ?thesis by (simp add: eval_complete_def)
qed

text \<open>
  C8. For every job whose name, status and status description are set, \<open>JobToPv\<close>
  returns a volume whose message and reason are the job's own status description and
  status. The annotations are the job's metadata map when the status is "running" and
  are left unset for every other status; for a job that has a metadata map, the
  annotations are that map if and only if the status is "running".
\<close>

theorem JobToPv_annotations:
  assumes "job_Name j = Some name"
    and "job_StatusDescription j = Some description"
    and "job_Status j = Some status"
  shows "\<exists>pv. JobToPv (Some j) = Inr pv \<and> pv_Name pv = name \<and>
     Message (pv_Status pv) = description \<and> Reason (pv_Status pv) = status \<and>
     (status = JobStatusRunning \<longrightarrow> pv_Annotations pv = job_Meta j) \<and>
     (status \<noteq> JobStatusRunning \<longrightarrow> pv_Annotations pv = None) \<and>
     (job_Meta j \<noteq> None \<longrightarrow> (pv_Annotations pv = job_Meta j \<longleftrightarrow> status = JobStatusRunning))"
  using assms by (auto simp add: JobToPv_def)

theorem JobToPv_annotations_witness:
  "(\<exists>pv. JobToPv (Some (job_with_status ''running'')) = Inr pv \<and>
      Message (pv_Status pv) = ''ok'' \<and> Reason (pv_Status pv) = ''running'' \<and>
      pv_Annotations pv = job_Meta (job_with_status ''running'')) \<and>
   (\<exists>pv. JobToPv (Some (job_with_status ''pending'')) = Inr pv \<and>
      Message (pv_Status pv) = ''ok'' \<and> Reason (pv_Status pv) = ''pending'' \<and>
      pv_Annotations pv = None \<and> pv_Annotations pv \<noteq> job_Meta (job_with_status ''pending''))"
proof
  have r: "job_Name (job_with_status ''running'') = Some ''vol1''"
    "job_StatusDescription (job_with_status ''running'') = Some ''ok''"
    "job_Status (job_with_status ''running'') = Some ''running''"
    by (simp_all add: job_with_status_def)
  from JobToPv_annotations [OF r]
  obtain pv where h: "JobToPv (Some (job_with_status ''running'')) = Inr pv \<and> pv_Name pv = ''vol1'' \<and>
     Message (pv_Status pv) = ''ok'' \<and> Reason (pv_Status pv) = ''running'' \<and>
     (''running'' = JobStatusRunning \<longrightarrow> pv_Annotations pv = job_Meta (job_with_status ''running'')) \<and>
     (''running'' \<noteq> JobStatusRunning \<longrightarrow> pv_Annotations pv = None) \<and>
     (job_Meta (job_with_status ''running'') \<noteq> None \<longrightarrow>
        (pv_Annotations pv = job_Meta (job_with_status ''running'') \<longleftrightarrow> ''running'' = JobStatusRunning))" ..
  show "\<exists>pv. JobToPv (Some (job_with_status ''running'')) = Inr pv \<and>
      Message (pv_Status pv) = ''ok'' \<and> Reason (pv_Status pv) = ''running'' \<and>
      pv_Annotations pv = job_Meta (job_with_status ''running'')"
    by (rule exI [of _ pv]) (use h in \<open>simp add: JobStatusRunning_def\<close>)
next
  have p: "job_Name (job_with_status ''pending'') = Some ''vol1''"
    "job_StatusDescription (job_with_status ''pending'') = Some ''ok''"
    "job_Status (job_with_status ''pending'') = Some ''pending''"
    by (simp_all add: job_with_status_def)
  from JobToPv_annotations [OF p]
  obtain pv where h: "JobToPv (Some (job_with_status ''pending'')) = Inr pv \<and> pv_Name pv = ''vol1'' \<and>
     Message (pv_Status pv) = ''ok'' \<and> Reason (pv_Status pv) = ''pending'' \<and>
     (''pending'' = JobStatusRunning \<longrightarrow> pv_Annotations pv = job_Meta (job_with_status ''pending'')) \<and>
     (''pending'' \<noteq> JobStatusRunning \<longrightarrow> pv_Annotations pv = None) \<and>
     (job_Meta (job_with_status ''pending'') \<noteq> None \<longrightarrow>
        (pv_Annotations pv = job_Meta (job_with_status ''pending'') \<longleftrightarrow> ''pending'' = JobStatusRunning))" ..
  show "\<exists>pv. JobToPv (Some (job_with_status ''pending'')) = Inr pv \<and>
      Message (pv_Status pv) = ''ok'' \<and> Reason (pv_Status pv) = ''pending'' \<and>
      pv_Annotations pv = None \<and> pv_Annotations pv \<noteq> job_Meta (job_with_status ''pending'')"
    by (rule exI [of _ pv]) (use h in \<open>simp add: JobStatusRunning_def job_with_status_def\<close>)
qed


text \<open>
  C10. \<open>JobToPv\<close> returns its error for the nil job and for nothing else. A job that is
  not nil and whose status or status description is a nil pointer makes it dereference
  the nil pointer. It returns a volume exactly when the name, the status and the status
  description are all set, so both status fields being set is necessary for it to
  return at all; every other job that is not nil ends in the panic.
\<close>

theorem JobToPv_nil_guard:
  "(JobToPv job = Inl NilJob \<longleftrightarrow> job = None) \<and>
   (job_Status j = None \<or> job_StatusDescription j = None \<longrightarrow>
      JobToPv (Some j) = Inl PanicNilDereference) \<and>
   ((\<exists>pv. JobToPv (Some j) = Inr pv) \<longleftrightarrow>
      job_Name j \<noteq> None \<and> job_Status j \<noteq> None \<and> job_StatusDescription j \<noteq> None) \<and>
   (\<forall>e. JobToPv (Some j) = Inl e \<longrightarrow> e = PanicNilDereference)"
  by (auto simp add: JobToPv_def split: option.splits)

text \<open>
  The job that \<open>PvToJob\<close> builds has a name and an ID only: handing it to \<open>JobToPv\<close>
  ends in the nil dereference.
\<close>

theorem JobToPv_nil_guard_witness:
  "\<exists>j. PvToJob (Some pv_vol1) = Inr j \<and> job_Status j = None \<and>
       JobToPv (Some j) = Inl PanicNilDereference \<and> is_panic PanicNilDereference \<and>
       JobToPv None = Inl NilJob"
proof -
  obtain j where j: "PvToJob (Some pv_vol1) = Inr j" "job_Status j = None"
    by (simp add: PvToJob_def)
  from JobToPv_nil_guard [of None j] j(2)
  have "JobToPv (Some j) = Inl PanicNilDereference" "JobToPv None = Inl NilJob"
    by simp_all
  with j show ?thesis by (simp add: is_panic_def)
qed

section \<open>The topology builder\<close>

lemma PvcToJob_first_absent:
  assumes "pvc_Name c \<noteq> []" "pvc_Labels c = Some m" "first_absent K m = Some (k, what)"
  shows "PvcToJob K (Some c) = Inl (MissingProperty what)"
  using assms
  by (simp add: PvcToJob_def first_absent_def required_properties_def split: if_splits)

lemma first_absent_exists:
  assumes "(k, what) \<in> set (required_properties K)" "lbl m k = []"
  shows "\<exists>k' what' i. first_absent K m = Some (k', what') \<and> lbl m k' = [] \<and>
           i < length (required_properties K) \<and> required_properties K ! i = (k', what') \<and>
           (\<forall>j<i. lbl m (fst (required_properties K ! j)) \<noteq> [])"
proof -
  let ?P = "\<lambda>(k, what). lbl m k = []"
  have "find ?P (required_properties K) \<noteq> None"
  proof
    assume "find ?P (required_properties K) = None"
    then have "\<not> ?P (k, what)"
      unfolding find_None_iff using assms(1) by (intro notI) (erule notE, rule exI [of _ "(k, what)"], simp)
    with assms(2) show False by simp
  qed
  then obtain x where x: "find ?P (required_properties K) = Some x" by auto
  then obtain i where i: "i < length (required_properties K)" "?P (required_properties K ! i)"
    "x = required_properties K ! i" "\<forall>j<i. \<not> ?P (required_properties K ! j)"
    unfolding find_Some_iff by (elim exE conjE)
  from i(4) have "\<forall>j<i. lbl m (fst (required_properties K ! j)) \<noteq> []"
    by (simp add: case_prod_beta)
  with x i(1,2,3) show ?thesis
    by (cases x) (auto simp add: first_absent_def)
qed

lemma example_PVPControllerImageLbl: "example_constants PVPControllerImageLbl = ''pvp/controller-image''"
  by (simp add: example_constants_def)

lemma first_absent_vol1_no_image: "first_absent example_constants (vol1_labels(example_constants PVPControllerImageLbl := None)) = Some (example_constants PVPControllerImageLbl, ''controller image'')"
  by (simp add: first_absent_def required_properties_def vol1_labels_def example_constants_def lbl_def)

lemma first_absent_vol1: "first_absent example_constants vol1_labels = None"
  by (simp add: first_absent_def required_properties_def vol1_labels_def example_constants_def lbl_def)

lemma Itoa_small: "Itoa 0 = ''0''" "Itoa 1 = ''1''" "Itoa 2 = ''2''"
  by (simp_all add: Itoa_def utoa.simps digit_char_def)

lemma setBEIPs_loop_two: "setBEIPs_loop K [ip0, ip1] 2 0 (be, meta) =
   (be(K JivaBackEndIPPrefixLbl @ ''0'' \<mapsto> ip0, K JivaBackEndIPPrefixLbl @ ''1'' \<mapsto> ip1),
    meta(K JivaBackEndIPPrefixLbl @ ''0'' \<mapsto> ip0, K JivaBackEndIPPrefixLbl @ ''1'' \<mapsto> ip1))"
  by (simp add: setBEIPs_loop.simps Itoa_small Let_def)


lemma Atoi_empty: "Atoi [] = Inl (AtoiSyntax [])"
  by (simp add: Atoi_def)

lemma PvcToJob_replica_count_absent:
  assumes "pvc_Name c \<noteq> []" and "pvc_Labels c = Some m"
    and "first_absent K m = None" and "lbl m (K PVPReplicaCountLbl) = []"
  shows "PvcToJob K (Some c) = Inl (AtoiSyntax [])"
proof -
  from assms(3) have present:
    "lbl m (K OrchRegionLbl) \<noteq> []" "lbl m (K OrchDCLbl) \<noteq> []"
    "lbl m (K PVPControllerImageLbl) \<noteq> []" "lbl m (K PVPControllerIPsLbl) \<noteq> []"
    "lbl m (K PVPReplicaIPsLbl) \<noteq> []" "lbl m (K CNTypeLbl) \<noteq> []"
    "lbl m (K CNSubnetLbl) \<noteq> []" "lbl m (K CNInterfaceLbl) \<noteq> []"
    "lbl m (K PVPPersistenceLocationLbl) \<noteq> []" "lbl m (K PVPStorageSizeLbl) \<noteq> []"
    by (simp_all add: first_absent_def required_properties_def split: if_splits)
  with assms(1,2,4) show ?thesis
    by (simp add: PvcToJob_def Atoi_empty)
qed

lemma first_absent_vol1_no_count:
  "first_absent example_constants (vol1_labels(example_constants PVPReplicaCountLbl := None)) = None"
  by (simp add: first_absent_def required_properties_def vol1_labels_def example_constants_def
      lbl_def)

text \<open>
  C6 as stated does not hold for the replica count, which the specification lists among
  the required properties. The example claim with every other property and no replica
  count makes \<open>PvcToJob\<close> fail with the syntax error of \<open>strconv.Atoi\<close> on the empty
  string: no job is built, and the error names no key.
\<close>

theorem PvcToJob_replica_count_counterexample:
  "first_absent example_constants
     (vol1_labels(example_constants PVPReplicaCountLbl := None)) = None \<and>
   label_of vol1_no_count (example_constants PVPReplicaCountLbl) = [] \<and>
   PvcToJob example_constants (Some vol1_no_count) = Inl (AtoiSyntax [])"
proof -
  let ?m = "vol1_labels(example_constants PVPReplicaCountLbl := None)"
  have 1: "pvc_Name vol1_no_count \<noteq> []" and 2: "pvc_Labels vol1_no_count = Some ?m"
    by (simp_all add: vol1_no_count_def vol1_def)
  have 4: "lbl ?m (example_constants PVPReplicaCountLbl) = []"
    by (simp add: lbl_def)
  from 2 4 have l: "label_of vol1_no_count (example_constants PVPReplicaCountLbl) = []"
    by (simp add: label_of_def)
  from PvcToJob_replica_count_absent [where K = example_constants,
      OF 1 2 first_absent_vol1_no_count 4] first_absent_vol1_no_count l
  show ?thesis by (simp only: simp_thms)
qed

text \<open>
  C6, amended. Take a claim with a name and a label map. If one of the ten properties
  that \<open>PvcToJob\<close> checks for presence (region, datacenter, controller image, controller
  IPs, replica IPs, network type, subnet, interface, persistence location, storage
  size) is absent or empty, \<open>PvcToJob\<close> builds no job and fails with the error
  "Missing ... in pvc" that names the first of them, in the fixed order of
  \<open>required_properties\<close>, whose label is empty; every property before it in that order
  is present. The replica count is not among the ten: when all ten are present and the
  replica count is absent or empty, \<open>PvcToJob\<close> builds no job either, but fails with the
  syntax error of \<open>strconv.Atoi\<close>, which names no key.
\<close>

theorem PvcToJob_missing_property:
  assumes "pvc_Name c \<noteq> []" and "pvc_Labels c = Some m"
  shows "((k, what) \<in> set (required_properties K) \<and> lbl m k = [] \<longrightarrow>
            (\<exists>k' what' i. first_absent K m = Some (k', what') \<and> lbl m k' = [] \<and>
               i < length (required_properties K) \<and> required_properties K ! i = (k', what') \<and>
               (\<forall>j<i. lbl m (fst (required_properties K ! j)) \<noteq> []) \<and>
               PvcToJob K (Some c) = Inl (MissingProperty what') \<and>
               (\<forall>job. PvcToJob K (Some c) \<noteq> Inr job))) \<and>
         (first_absent K m = None \<and> lbl m (K PVPReplicaCountLbl) = [] \<longrightarrow>
            PvcToJob K (Some c) = Inl (AtoiSyntax []) \<and>
            (\<forall>job. PvcToJob K (Some c) \<noteq> Inr job))"
proof (intro conjI impI)
  assume "(k, what) \<in> set (required_properties K) \<and> lbl m k = []"
  then have h: "(k, what) \<in> set (required_properties K)" "lbl m k = []" by simp_all
  from first_absent_exists [OF h]
  obtain k' what' i where f: "first_absent K m = Some (k', what')" "lbl m k' = []"
    "i < length (required_properties K)" "required_properties K ! i = (k', what')"
    "\<forall>j<i. lbl m (fst (required_properties K ! j)) \<noteq> []" by (elim exE conjE)
  from PvcToJob_first_absent [OF assms(1,2) f(1)]
  have "PvcToJob K (Some c) = Inl (MissingProperty what')" .
  with f show "\<exists>k' what' i. first_absent K m = Some (k', what') \<and> lbl m k' = [] \<and>
               i < length (required_properties K) \<and> required_properties K ! i = (k', what') \<and>
               (\<forall>j<i. lbl m (fst (required_properties K ! j)) \<noteq> []) \<and>
               PvcToJob K (Some c) = Inl (MissingProperty what') \<and>
               (\<forall>job. PvcToJob K (Some c) \<noteq> Inr job)"
    by auto
next
  assume "first_absent K m = None \<and> lbl m (K PVPReplicaCountLbl) = []"
  then have h: "first_absent K m = None" "lbl m (K PVPReplicaCountLbl) = []" by simp_all
  from PvcToJob_replica_count_absent [OF assms h]
  show "PvcToJob K (Some c) = Inl (AtoiSyntax [])" .
next
  assume "first_absent K m = None \<and> lbl m (K PVPReplicaCountLbl) = []"
  then have h: "first_absent K m = None" "lbl m (K PVPReplicaCountLbl) = []" by simp_all
  from PvcToJob_replica_count_absent [OF assms h]
  show "\<forall>job. PvcToJob K (Some c) \<noteq> Inr job" by simp
qed

text \<open>
  The example claim without its controller image: the error names the controller image.
  The example claim without its replica count: the error is the one of \<open>strconv.Atoi\<close>.
\<close>

theorem PvcToJob_missing_property_witness:
  "PvcToJob example_constants (Some vol1_no_image) = Inl (MissingProperty ''controller image'') \<and>
   PvcToJob example_constants (Some vol1_no_count) = Inl (AtoiSyntax [])"
proof
  let ?m = "vol1_labels(example_constants PVPControllerImageLbl := None)"
  have 1: "pvc_Name vol1_no_image \<noteq> []" "pvc_Labels vol1_no_image = Some ?m"
    by (simp_all add: vol1_no_image_def vol1_def)
  have 2: "(example_constants PVPControllerImageLbl, ''controller image'')
             \<in> set (required_properties example_constants) \<and>
           lbl ?m (example_constants PVPControllerImageLbl) = []"
    by (simp add: required_properties_def lbl_def)
  from PvcToJob_missing_property [where K = example_constants, OF 1,
      THEN conjunct1, THEN mp, OF 2]
  obtain k' what' where f: "first_absent example_constants ?m = Some (k', what')"
    "PvcToJob example_constants (Some vol1_no_image) = Inl (MissingProperty what')"
    by (elim exE conjE)
  from f(1) first_absent_vol1_no_image have "what' = ''controller image''" by simp
  with f(2) show "PvcToJob example_constants (Some vol1_no_image) =
      Inl (MissingProperty ''controller image'')" by simp
next
  let ?m = "vol1_labels(example_constants PVPReplicaCountLbl := None)"
  have 1: "pvc_Name vol1_no_count \<noteq> []" "pvc_Labels vol1_no_count = Some ?m"
    by (simp_all add: vol1_no_count_def vol1_def)
  have 2: "first_absent example_constants ?m = None \<and>
           lbl ?m (example_constants PVPReplicaCountLbl) = []"
    by (simp add: first_absent_vol1_no_count lbl_def)
  from PvcToJob_missing_property [where K = example_constants, OF 1,
      THEN conjunct2, THEN mp, OF 2]
  show "PvcToJob example_constants (Some vol1_no_count) = Inl (AtoiSyntax [])"
    by simp
qed

text \<open>
  C5. For every claim that has a name and all required properties, whose replica count
  parses to 2 and whose replica IPs are two comma-separated values, \<open>PvcToJob\<close> succeeds.
  The job has two task groups: the frontend group with count 1 and no constraint, and
  the backend group with count 2 and the "distinct\_hosts" constraint. Its metadata map
  has one backend-IP entry for index 0 and one for index 1, holding the two addresses
  in order.
\<close>

theorem PvcToJob_two_replicas:
  assumes "pvc_Name c \<noteq> []" and "pvc_Labels c = Some m"
    and "first_absent K m = None"
    and "Atoi (lbl m (K PVPReplicaCountLbl)) = Inr 2"
    and "Split (lbl m (K PVPReplicaIPsLbl)) CHR '','' = [ip0, ip1]"
  shows "\<exists>job fe be meta. PvcToJob K (Some c) = Inr job \<and>
           job_TaskGroups job = [fe, be] \<and>
           tg_Count fe = Some 1 \<and> tg_Constraints fe = [] \<and>
           tg_Count be = Some 2 \<and>
           tg_Constraints be = [\<lparr>LTarget = [], RTarget = ''true'', Operand = ''distinct_hosts''\<rparr>] \<and>
           job_Meta job = Some meta \<and>
           meta (K JivaBackEndIPPrefixLbl @ ''0'') = Some ip0 \<and>
           meta (K JivaBackEndIPPrefixLbl @ ''1'') = Some ip1"
proof -
  from assms(3) have present:
    "lbl m (K OrchRegionLbl) \<noteq> []" "lbl m (K OrchDCLbl) \<noteq> []"
    "lbl m (K PVPControllerImageLbl) \<noteq> []" "lbl m (K PVPControllerIPsLbl) \<noteq> []"
    "lbl m (K PVPReplicaIPsLbl) \<noteq> []" "lbl m (K CNTypeLbl) \<noteq> []"
    "lbl m (K CNSubnetLbl) \<noteq> []" "lbl m (K CNInterfaceLbl) \<noteq> []"
    "lbl m (K PVPPersistenceLocationLbl) \<noteq> []" "lbl m (K PVPStorageSizeLbl) \<noteq> []"
    by (simp_all add: first_absent_def required_properties_def split: if_splits)
  have "setBEIPs K (beEnv_of K (pvc_Name c) m) (jobMeta_of K (pvc_Name c) m) [ip0, ip1] 2 =
     Inr (setBEIPs_loop K [ip0, ip1] 2 0
            (beEnv_of K (pvc_Name c) m,
             (jobMeta_of K (pvc_Name c) m)(K PVPReplicaCountLbl \<mapsto> Itoa 2)))"
    by (simp add: setBEIPs_def)
  with assms present show ?thesis
    by (simp add: PvcToJob_def setBEIPs_loop_two jivaJob_def NewConstraint_def)
qed


text \<open>The claim "vol1" of the specification's example.\<close>

theorem PvcToJob_two_replicas_witness:
  "\<exists>job fe be meta. PvcToJob example_constants (Some vol1) = Inr job \<and>
     job_TaskGroups job = [fe, be] \<and>
     tg_Count fe = Some 1 \<and> tg_Constraints fe = [] \<and>
     tg_Count be = Some 2 \<and>
     tg_Constraints be = [\<lparr>LTarget = [], RTarget = ''true'', Operand = ''distinct_hosts''\<rparr>] \<and>
     job_Meta job = Some meta \<and>
     meta ''JIVA_REP_IP_0'' = Some ''10.0.0.5'' \<and>
     meta ''JIVA_REP_IP_1'' = Some ''10.0.0.6''"
proof -
  have 1: "pvc_Name vol1 \<noteq> []" and 2: "pvc_Labels vol1 = Some vol1_labels"
    by (simp_all add: vol1_def)
  have 4: "Atoi (lbl vol1_labels (example_constants PVPReplicaCountLbl)) = Inr 2"
    by (simp add: vol1_labels_def example_constants_def lbl_def Atoi_def digit_val_def)
  have 5: "Split (lbl vol1_labels (example_constants PVPReplicaIPsLbl)) CHR '','' =
             [''10.0.0.5'', ''10.0.0.6'']"
    by (simp add: vol1_labels_def example_constants_def lbl_def)
  have p: "example_constants JivaBackEndIPPrefixLbl = ''JIVA_REP_IP_''"
    by (simp add: example_constants_def)
  from PvcToJob_two_replicas [OF 1 2 first_absent_vol1 4 5]
  show ?thesis unfolding p by simp
qed

section \<open>Addresses and separators\<close>

lemma utoa_digits: "c \<in> set (utoa n) \<Longrightarrow> \<exists>d. c = digit_char d"
proof (induction n rule: utoa.induct)
  case (1 n)
  show ?case
  proof (cases "n < 10")
    case True
    with "1.prems" show ?thesis by (subst (asm) utoa.simps) auto
  next
    case False
    from "1.prems" False have "c \<in> set (utoa (n div 10)) \<or> c = digit_char (n mod 10)"
      by (subst (asm) utoa.simps) auto
    with 1 False show ?thesis by auto
  qed
qed

lemma utoa_no_separator:
  "CHR ''.'' \<notin> set (utoa n)" "CHR '','' \<notin> set (utoa n)" "CHR ''/'' \<notin> set (utoa n)"
  using utoa_digits [of _ n] digit_char_no_separator by metis+

lemma Split_not_Nil: "Split s sep \<noteq> []"
  by (induction s) (auto split: list.splits)

lemma Split_no_separator: "sep \<notin> set s \<Longrightarrow> Split s sep = [s]"
  by (induction s) auto

lemma Split_append: "sep \<notin> set s \<Longrightarrow> Split (s @ sep # t) sep = s # Split t sep"
  by (induction s) auto

lemma parse_octet_utoa: "n \<le> 255 \<Longrightarrow> parse_octet (utoa n) = Some n"
  by (simp add: parse_octet_def parse_digits_utoa)

lemma Split_ip_string:
  "Split (ip_string a) CHR ''.'' =
     [utoa (a div 16777216), utoa (a div 65536 mod 256), utoa (a div 256 mod 256), utoa (a mod 256)]"
  by (simp add: ip_string_def Split_append Split_no_separator utoa_no_separator)

lemma octets_recombine:
  fixes a :: nat
  shows "((a div 16777216 * 256 + a div 65536 mod 256) * 256 + a div 256 mod 256) * 256 + a mod 256 = a"
proof -
  have 1: "a div 65536 = a div 256 div 256"
    by (simp add: div_mult2_eq)
  have 2: "a div 16777216 = a div 256 div 256 div 256"
    by (simp add: div_mult2_eq)
  show ?thesis
    unfolding 1 2 by (simp only: div_mult_mod_eq)
qed

lemma mod_256_le: "(n::nat) mod 256 \<le> 255"
proof -
  have "n mod 256 < 256" by (rule mod_less_divisor) simp
  then show ?thesis by simp
qed

lemma parse_ip_ip_string:
  assumes "a < 2 ^ 32"
  shows "parse_ip (ip_string a) = Some a"
proof -
  from assms have "a div 16777216 \<le> 255" by simp
  then have "map parse_octet (Split (ip_string a) CHR ''.'') =
    [Some (a div 16777216), Some (a div 65536 mod 256), Some (a div 256 mod 256), Some (a mod 256)]"
    by (simp add: Split_ip_string parse_octet_utoa mod_256_le)
  then show ?thesis
    unfolding parse_ip_def by (simp only: list.case option.case octets_recombine)
qed

lemma ip_string_inj: "a < 2 ^ 32 \<Longrightarrow> b < 2 ^ 32 \<Longrightarrow> ip_string a = ip_string b \<Longrightarrow> a = b"
  using parse_ip_ip_string by (metis option.inject)

lemma ip_string_no_comma: "CHR '','' \<notin> set (ip_string a)"
  by (simp add: ip_string_def utoa_no_separator)

lemma parse_ip_bound: "parse_ip s = Some a \<Longrightarrow> a < 2 ^ 32"
proof -
  assume h: "parse_ip s = Some a"
  then obtain o1 o2 o3 o4 where
    m: "map parse_octet (Split s CHR ''.'') = [Some o1, Some o2, Some o3, Some o4]"
    and a: "a = ((o1 * 256 + o2) * 256 + o3) * 256 + o4"
    by (auto simp add: parse_ip_def split: list.splits option.splits)
  from m obtain s1 s2 s3 s4 where "parse_octet s1 = Some o1" "parse_octet s2 = Some o2"
    "parse_octet s3 = Some o3" "parse_octet s4 = Some o4"
    by (auto simp add: map_eq_Cons_conv)
  then have "o1 \<le> 255" "o2 \<le> 255" "o3 \<le> 255" "o4 \<le> 255"
    by (auto simp add: parse_octet_def split: option.splits if_splits)
  with a show ?thesis by simp
qed

lemma parse_cidr_bounds: "parse_cidr cidr = Some (a, p) \<Longrightarrow> a < 2 ^ 32 \<and> p \<le> 32"
  by (auto simp add: parse_cidr_def split: list.splits option.splits if_splits dest: parse_ip_bound)

lemma network_plus_block:
  assumes "a < 2 ^ 32" "p \<le> 32"
  shows "network_address a p + 2 ^ (32 - p) \<le> 2 ^ 32"
proof -
  let ?B = "(2::nat) ^ (32 - p)"
  have B: "?B * 2 ^ p = 2 ^ 32"
    using assms(2) by (simp add: power_add [symmetric])
  have nw: "network_address a p = ?B * (a div ?B)"
    by (simp add: network_address_def minus_mod_eq_mult_div)
  from assms(1) B have "a < ?B * 2 ^ p" by simp
  then have "a div ?B < 2 ^ p"
    by (simp add: less_mult_imp_div_less mult.commute)
  then have "a div ?B + 1 \<le> 2 ^ p" by simp
  then have "?B * (a div ?B + 1) \<le> ?B * 2 ^ p"
    by (rule mult_le_mono2)
  with B nw show ?thesis by (simp add: algebra_simps)
qed


lemma upt_in_usable_range:
  assumes "a < 2 ^ 32" "p \<le> 32" "k \<le> usable_count p"
    and "x \<in> set [network_address a p + 1 ..< network_address a p + 1 + k]"
  shows "network_address a p < x \<and> x < broadcast_address a p \<and> x < 2 ^ 32"
proof -
  from assms(4) have x: "network_address a p < x" "x < network_address a p + 1 + k"
    by auto
  from x assms(3) have k: "0 < k" "k + 2 \<le> 2 ^ (32 - p)"
    by (auto simp add: usable_count_def)
  from x(2) k(2) have "x < network_address a p + 2 ^ (32 - p) - 1" by linarith
  moreover from network_plus_block [OF assms(1,2)] this have "x < 2 ^ 32" by linarith
  ultimately show ?thesis using x(1) by (simp add: broadcast_address_def)
qed

text \<open>
  What the modelled allocator returns when the pool is large enough: the requested number
  of addresses, all different, each a usable host address of the subnet, in ascending
  order from the first usable one, and none with a comma in it.
\<close>

lemma GetAvailableIPs_enough:
  assumes "parse_cidr cidr = Some (a, p)" and "0 \<le> k" and "k \<le> int (usable_count p)"
  shows "\<exists>ips. GetAvailableIPs cidr k = Inr ips \<and> length ips = nat k \<and> distinct ips \<and>
           (\<forall>ip \<in> set ips. in_subnet cidr ip \<and> CHR '','' \<notin> set ip) \<and>
           ips = map ip_string [network_address a p + 1 ..< network_address a p + 1 + nat k]"
proof -
  let ?xs = "[network_address a p + 1 ..< network_address a p + 1 + nat k]"
  from parse_cidr_bounds [OF assms(1)] have b: "a < 2 ^ 32" "p \<le> 32" by simp_all
  from assms(2,3) have k: "nat k \<le> usable_count p" by simp
  have rng: "\<And>x. x \<in> set ?xs \<Longrightarrow>
      network_address a p < x \<and> x < broadcast_address a p \<and> x < 2 ^ 32"
    using upt_in_usable_range [OF b k] by blast
  have res: "GetAvailableIPs cidr k = Inr (map ip_string ?xs)"
    using assms by (simp add: GetAvailableIPs_def)
  have len: "length (map ip_string ?xs) = nat k" by simp
  have "inj_on ip_string (set ?xs)"
  proof (rule inj_onI)
    fix x y assume "x \<in> set ?xs" "y \<in> set ?xs" "ip_string x = ip_string y"
    with rng show "x = y" using ip_string_inj by blast
  qed
  then have dist: "distinct (map ip_string ?xs)"
    by (simp add: distinct_map)
  have sub: "\<forall>ip \<in> set (map ip_string ?xs). in_subnet cidr ip \<and> CHR '','' \<notin> set ip"
  proof
    fix ip assume "ip \<in> set (map ip_string ?xs)"
    then obtain x where x: "x \<in> set ?xs" "ip = ip_string x" by auto
    from rng [OF x(1)] have r: "network_address a p < x" "x < broadcast_address a p" "x < 2 ^ 32"
      by simp_all
    from r(3) have "parse_ip ip = Some x" unfolding x(2) by (rule parse_ip_ip_string)
    with r(1,2) assms(1) have "in_subnet cidr ip" by (simp add: in_subnet_def)
    then show "in_subnet cidr ip \<and> CHR '','' \<notin> set ip"
      by (simp add: x(2) ip_string_no_comma)
  qed
  from res len dist sub show ?thesis by blast
qed

lemma GetAvailableIPs_exhausted:
  assumes "parse_cidr cidr = Some (a, p)" and "int (usable_count p) < k"
  shows "GetAvailableIPs cidr k = Inl AddressPoolExhausted"
  using assms by (simp add: GetAvailableIPs_def)

lemma appendIPs_concat: "appendIPs acc ips = acc @ concat (map (\<lambda>ip. ip @ '','') ips)"
  by (induction ips arbitrary: acc) simp_all

lemma concat_join_commas:
  "ips \<noteq> [] \<Longrightarrow> concat (map (\<lambda>ip. ip @ '','') ips) = join_commas ips @ '',''"
  by (induction ips rule: join_commas.induct) simp_all

lemma TrimSuffix_appended: "TrimSuffix (s @ suf) suf = s"
  by (simp add: TrimSuffix_def)

text \<open>The string \<open>setBackendIPsAsString\<close> stores: the addresses with commas between them.\<close>

lemma backend_string: "TrimSuffix (appendIPs [] ips) '','' = join_commas ips"
proof (cases "ips = []")
  case True
  then show ?thesis by (simp add: TrimSuffix_def)
next
  case False
  then have "appendIPs [] ips = join_commas ips @ '',''"
    by (simp add: appendIPs_concat concat_join_commas)
  then show ?thesis
    by (simp only: TrimSuffix_appended)
qed

text \<open>Splitting that string at the commas gives the addresses back, in order.\<close>

lemma Split_join_commas:
  "ips \<noteq> [] \<Longrightarrow> \<forall>ip \<in> set ips. CHR '','' \<notin> set ip \<Longrightarrow>
     Split (join_commas ips) CHR '','' = ips"
proof (induction ips rule: join_commas.induct)
  case 1
  then show ?case by simp
next
  case (2 s)
  then show ?case by (simp add: Split_no_separator)
next
  case (3 s t ss)
  then show ?case by (simp add: Split_append)
qed

lemma setBackendIPsAsString_labels:
  "pvc_Labels pvc = Some m \<Longrightarrow>
     setBackendIPsAsString K ips pvc =
       (pvc\<lparr>pvc_Labels := Some (m(K JivaBackEndAllIPsLbl \<mapsto> join_commas ips))\<rparr>, None)"
  by (simp add: setBackendIPsAsString_def set_label_def backend_string)

section \<open>Resolution and allocation\<close>

lemma lbl_upd: "lbl (m(k \<mapsto> v)) k' = (if k' = k then v else lbl m k')"
  by (simp add: lbl_def)

lemma setDefaults_keeps: "lbl m k \<noteq> [] \<Longrightarrow> setDefaults kvs m k = m k"
proof (induction kvs arbitrary: m)
  case Nil
  then show ?case by simp
next
  case (Cons kv kvs)
  obtain k' v where kv: "kv = (k', v)" by (cases kv)
  show ?case
  proof (cases "lbl m k' = []")
    case True
    with Cons.prems have "k \<noteq> k'" by auto
    with Cons.prems have "lbl (m(k' \<mapsto> v)) k \<noteq> []" by (simp add: lbl_upd)
    from Cons.IH [OF this] have "setDefaults kvs (m(k' \<mapsto> v)) k = (m(k' \<mapsto> v)) k" .
    with True \<open>k \<noteq> k'\<close> show ?thesis by (simp add: kv)
  next
    case False
    with Cons.IH [OF Cons.prems] show ?thesis by (simp add: kv)
  qed
qed

text \<open>
  \<open>setCN\<close> up to the point where it turns to the addresses: the defaults are merged, the
  network CIDR is read and the subnet derived from it is stored.
\<close>

lemma setCN_allocation:
  assumes "pvc_Labels pvc = Some m" and "dc \<noteq> []" and "NetworkProps j dc = Inr cn"
    and "cidr = lbl (setDefaults cn m) (K CNNetworkCIDRAddrLbl)" and "cidr \<noteq> []"
    and "nh_CIDRSubnet nh cidr = Inr subnet"
    and "m2 = (setDefaults cn m)(K CNSubnetLbl \<mapsto> subnet)"
    and "pvc2 = pvc\<lparr>pvc_Labels := Some m2\<rparr>"
  shows "setCN K nh j dc pvc =
     (if lbl m2 (K JivaFrontEndIPLbl) = [] \<and> lbl m2 (K JivaBackEndAllIPsLbl) = []
      then (case Atoi (lbl m2 (K CSReplicaCountLbl)) of
              Inl e \<Rightarrow> (pvc2, Some e)
            | Inr iBECount \<Rightarrow>
                (case nh_GetAvailableIPs nh cidr (add_int64 1 iBECount) of
                   Inl e \<Rightarrow> (pvc2, Some e)
                 | Inr [] \<Rightarrow> (pvc2, Some PanicIndexOutOfRange)
                 | Inr (ip0 # rest) \<Rightarrow>
                     (pvc\<lparr>pvc_Labels := Some (m2(K JivaFrontEndIPLbl \<mapsto> ip0,
                                              K JivaBackEndAllIPsLbl \<mapsto> join_commas rest))\<rparr>, None)))
      else if lbl m2 (K JivaFrontEndIPLbl) = []
      then (case nh_GetAvailableIPs nh cidr 1 of
              Inl e \<Rightarrow> (pvc2, Some e)
            | Inr [] \<Rightarrow> (pvc2, Some PanicIndexOutOfRange)
            | Inr (ip0 # rest) \<Rightarrow> (pvc\<lparr>pvc_Labels := Some (m2(K JivaFrontEndIPLbl \<mapsto> ip0))\<rparr>, None))
      else if lbl m2 (K JivaBackEndAllIPsLbl) = []
      then (case Atoi (lbl m2 (K CSReplicaCountLbl)) of
              Inl e \<Rightarrow> (pvc2, Some e)
            | Inr iBECount \<Rightarrow>
                (case nh_GetAvailableIPs nh cidr iBECount of
                   Inl e \<Rightarrow> (pvc2, Some e)
                 | Inr ips \<Rightarrow>
                     (pvc\<lparr>pvc_Labels := Some (m2(K JivaBackEndAllIPsLbl \<mapsto> join_commas ips))\<rparr>, None)))
      else (pvc2, None))"
  using assms
  by (simp add: setCN_def Let_def setBackendIPs_def getBackendCount_def label_of_def
      setBackendIPsAsString_labels split: sum.splits list.splits)


lemma usable_count_bound: "int (usable_count p) < 2 ^ 32"
proof -
  have "(2::nat) ^ (32 - p) \<le> 2 ^ 32" by (rule power_increasing) simp_all
  then have "usable_count p < 2 ^ 32" by (simp add: usable_count_def)
  then show ?thesis by (metis of_nat_less_iff of_nat_numeral of_nat_power)
qed

lemma add_int64_small: "0 \<le> r \<Longrightarrow> r < 2 ^ 32 \<Longrightarrow> add_int64 1 r = r + 1"
  by (simp add: add_int64_def)

text \<open>
  C3. Take a claim on which, once the defaults are merged and the subnet is stored,
  neither the frontend IP nor the backend IP list is set, whose replica count parses to
  \<open>r \<ge> 0\<close>, and a network with at least \<open>r + 1\<close> usable addresses. Then the allocator
  yields exactly \<open>r + 1\<close> addresses, all different and all usable host addresses of the
  network; \<open>setCN\<close> succeeds, the first address becomes the frontend IP and the remaining
  \<open>r\<close> become the backend IP list, in order, separated by commas.
\<close>

theorem setCN_allocates_frontend_and_backends:
  assumes "pvc_Labels pvc = Some m" and "dc \<noteq> []" and "NetworkProps j dc = Inr cn"
    and "cidr = lbl (setDefaults cn m) (K CNNetworkCIDRAddrLbl)" and "cidr \<noteq> []"
    and "nh_CIDRSubnet nh cidr = Inr subnet"
    and "m2 = (setDefaults cn m)(K CNSubnetLbl \<mapsto> subnet)"
    and "lbl m2 (K JivaFrontEndIPLbl) = []" and "lbl m2 (K JivaBackEndAllIPsLbl) = []"
    and "K JivaFrontEndIPLbl \<noteq> K JivaBackEndAllIPsLbl"
    and "Atoi (lbl m2 (K CSReplicaCountLbl)) = Inr r" and "0 \<le> r"
    and "nh_GetAvailableIPs nh = GetAvailableIPs"
    and "parse_cidr cidr = Some (a, p)" and "r + 1 \<le> int (usable_count p)"
  shows "\<exists>fe bes pvc'.
           GetAvailableIPs cidr (r + 1) = Inr (fe # bes) \<and>
           length (fe # bes) = nat (r + 1) \<and> distinct (fe # bes) \<and>
           (\<forall>ip \<in> set (fe # bes). in_subnet cidr ip) \<and>
           setCN K nh j dc pvc = (pvc', None) \<and>
           pvc' = pvc\<lparr>pvc_Labels := Some (m2(K JivaFrontEndIPLbl \<mapsto> fe,
                                            K JivaBackEndAllIPsLbl \<mapsto> join_commas bes))\<rparr> \<and>
           label_of pvc' (K JivaFrontEndIPLbl) = fe \<and>
           label_of pvc' (K JivaBackEndAllIPsLbl) = join_commas bes \<and>
           (0 < r \<longrightarrow> Split (label_of pvc' (K JivaBackEndAllIPsLbl)) CHR '','' = bes)"
proof -
  from assms(12) have k0: "0 \<le> r + 1" by simp
  from GetAvailableIPs_enough [OF assms(14) k0 assms(15)]
  obtain ips where ips: "GetAvailableIPs cidr (r + 1) = Inr ips" "length ips = nat (r + 1)"
    "distinct ips" "\<forall>ip \<in> set ips. in_subnet cidr ip \<and> CHR '','' \<notin> set ip"
    by (elim exE conjE)
  from ips(2) assms(12) obtain fe bes where fb: "ips = fe # bes"
    by (cases ips) auto
  from assms(15) usable_count_bound [of p] have "r < 2 ^ 32" by linarith
  with assms(12) have inc: "add_int64 1 r = r + 1" by (rule add_int64_small)
  let ?pvc' = "pvc\<lparr>pvc_Labels := Some (m2(K JivaFrontEndIPLbl \<mapsto> fe,
                                        K JivaBackEndAllIPsLbl \<mapsto> join_commas bes))\<rparr>"
  have run: "setCN K nh j dc pvc = (?pvc', None)"
    using setCN_allocation [OF assms(1-7) refl] assms(8,9,11,13) inc ips(1) fb
    by simp
  have fe: "label_of ?pvc' (K JivaFrontEndIPLbl) = fe"
    using assms(10) by (simp add: label_of_def lbl_upd)
  have be: "label_of ?pvc' (K JivaBackEndAllIPsLbl) = join_commas bes"
    by (simp add: label_of_def lbl_upd)
  have sp: "0 < r \<longrightarrow> Split (label_of ?pvc' (K JivaBackEndAllIPsLbl)) CHR '','' = bes"
  proof
    assume "0 < r"
    with ips(2) fb have "bes \<noteq> []" by auto
    moreover from ips(4) fb have "\<forall>ip \<in> set bes. CHR '','' \<notin> set ip" by simp
    ultimately show "Split (label_of ?pvc' (K JivaBackEndAllIPsLbl)) CHR '','' = bes"
      unfolding be by (rule Split_join_commas)
  qed
  from ips fb have props: "GetAvailableIPs cidr (r + 1) = Inr (fe # bes)"
    "length (fe # bes) = nat (r + 1)" "distinct (fe # bes)"
    "\<forall>ip \<in> set (fe # bes). in_subnet cidr ip"
    by simp_all
  show ?thesis
    by (intro exI [of _ fe] exI [of _ bes] exI [of _ ?pvc'] conjI props run refl fe be sp)
qed






subsection \<open>The example claim\<close>

lemmas address_eval =
  GetAvailableIPs_def CIDRSubnet_def in_subnet_def parse_cidr_def parse_ip_def parse_octet_def
  parse_digits_def digit_val_def network_address_def broadcast_address_def usable_count_def
  ip_string_def utoa.simps digit_char_def

lemmas claim_eval =
  vol1_unallocated_def vol1_frontend_only_def vol1_backends_only_def vol1_def
  unallocated_labels_def vol1_labels_def example_constants_def lbl_def label_of_def

lemma NetworkProps_dc1: "NetworkProps jiva_dc1 ''dc1'' = Inr cn_dc1"
  by (simp add: NetworkProps_def jiva_dc1_def nomad_dc1_def)

lemma StorageProps_dc1: "StorageProps jiva_dc1 ''dc1'' = Inr cs_dc1"
  by (simp add: StorageProps_def jiva_dc1_def nomad_dc1_def)

lemma parse_cidr_10: "parse_cidr ''10.0.0.0/24'' = Some (167772160, 24)"
  by (simp add: address_eval)

lemma CIDRSubnet_10: "nh_CIDRSubnet nethelper_spec ''10.0.0.0/24'' = Inr ''10.0.0.0/24''"
  by (simp add: nethelper_spec_def address_eval)

lemma nh_spec_allocator: "nh_GetAvailableIPs nethelper_spec = GetAvailableIPs"
  by (simp add: nethelper_spec_def)

lemma GetAvailableIPs_10:
  "GetAvailableIPs ''10.0.0.0/24'' 1 = Inr [''10.0.0.1'']"
  "GetAvailableIPs ''10.0.0.0/24'' 2 = Inr [''10.0.0.1'', ''10.0.0.2'']"
  "GetAvailableIPs ''10.0.0.0/24'' 3 = Inr [''10.0.0.1'', ''10.0.0.2'', ''10.0.0.3'']"
  by (simp_all add: address_eval)

lemma unallocated_cidr:
  "''10.0.0.0/24'' = lbl (setDefaults cn_dc1 unallocated_labels) (example_constants CNNetworkCIDRAddrLbl)"
  by (simp add: cn_dc1_def claim_eval)

text \<open>
  The example claim with network 10.0.0.0/24 and two replicas: the frontend gets
  10.0.0.1 and the backends get 10.0.0.2 and 10.0.0.3.
\<close>

theorem setCN_allocates_frontend_and_backends_witness:
  "snd (setCN example_constants nethelper_spec jiva_dc1 ''dc1'' vol1_unallocated) = None \<and>
   label_of (fst (setCN example_constants nethelper_spec jiva_dc1 ''dc1'' vol1_unallocated))
     (example_constants JivaFrontEndIPLbl) = ''10.0.0.1'' \<and>
   label_of (fst (setCN example_constants nethelper_spec jiva_dc1 ''dc1'' vol1_unallocated))
     (example_constants JivaBackEndAllIPsLbl) = ''10.0.0.2,10.0.0.3'' \<and>
   distinct [''10.0.0.1'', ''10.0.0.2'', ''10.0.0.3''] \<and>
   in_subnet ''10.0.0.0/24'' ''10.0.0.1'' \<and> in_subnet ''10.0.0.0/24'' ''10.0.0.2'' \<and>
   in_subnet ''10.0.0.0/24'' ''10.0.0.3''"
proof -
  let ?K = example_constants
  let ?m2 = "(setDefaults cn_dc1 unallocated_labels)(?K CNSubnetLbl \<mapsto> ''10.0.0.0/24'')"
  have 1: "pvc_Labels vol1_unallocated = Some unallocated_labels"
    by (simp add: vol1_unallocated_def)
  have 2: "''dc1'' \<noteq> []" and 5: "''10.0.0.0/24'' \<noteq> []" by simp_all
  have 8: "lbl ?m2 (?K JivaFrontEndIPLbl) = []" and 9: "lbl ?m2 (?K JivaBackEndAllIPsLbl) = []"
    by (simp_all add: cn_dc1_def claim_eval)
  have 10: "?K JivaFrontEndIPLbl \<noteq> ?K JivaBackEndAllIPsLbl"
    by (simp add: example_constants_def)
  have 11: "Atoi (lbl ?m2 (?K CSReplicaCountLbl)) = Inr 2"
    by (simp add: cn_dc1_def claim_eval Atoi_def digit_val_def)
  have 12: "(0::int) \<le> 2" by simp
  have 15: "(2::int) + 1 \<le> int (usable_count 24)" by (simp add: usable_count_def)
  from setCN_allocates_frontend_and_backends
    [OF 1 2 NetworkProps_dc1 unallocated_cidr 5 CIDRSubnet_10 refl 8 9 10 11 12
        nh_spec_allocator parse_cidr_10 15]
  obtain fe bes pvc' where r:
    "GetAvailableIPs ''10.0.0.0/24'' (2 + 1) = Inr (fe # bes)"
    "distinct (fe # bes)" "\<forall>ip \<in> set (fe # bes). in_subnet ''10.0.0.0/24'' ip"
    "setCN ?K nethelper_spec jiva_dc1 ''dc1'' vol1_unallocated = (pvc', None)"
    "label_of pvc' (?K JivaFrontEndIPLbl) = fe"
    "label_of pvc' (?K JivaBackEndAllIPsLbl) = join_commas bes"
    by (elim exE conjE)
  from r(1) GetAvailableIPs_10(3) have fb: "fe = ''10.0.0.1''" "bes = [''10.0.0.2'', ''10.0.0.3'']"
    by simp_all
  from r(2,3,4,5,6) show ?thesis unfolding fb by simp
qed





subsection \<open>Replica IPs that disagree with the replica count\<close>

lemma mismatch_cidr:
  "''10.0.0.0/24'' = lbl (setDefaults cn_dc1
      (unallocated_labels(example_constants JivaBackEndAllIPsLbl \<mapsto> ''10.0.0.5'',
                          example_constants PVPReplicaIPsLbl \<mapsto> ''10.0.0.5'')))
      (example_constants CNNetworkCIDRAddrLbl)"
  by (simp add: cn_dc1_def claim_eval)

lemma setCN_vol1_mismatch:
  "setCN example_constants nethelper_spec jiva_dc1 ''dc1'' vol1_mismatch =
     (vol1_mismatch\<lparr>pvc_Labels := Some
        (((setDefaults cn_dc1
            (unallocated_labels(example_constants JivaBackEndAllIPsLbl \<mapsto> ''10.0.0.5'',
                                example_constants PVPReplicaIPsLbl \<mapsto> ''10.0.0.5'')))
          (example_constants CNSubnetLbl \<mapsto> ''10.0.0.0/24''))
          (example_constants JivaFrontEndIPLbl \<mapsto> ''10.0.0.1''))\<rparr>, None)"
proof -
  have 1: "pvc_Labels vol1_mismatch =
      Some (unallocated_labels(example_constants JivaBackEndAllIPsLbl \<mapsto> ''10.0.0.5'',
                               example_constants PVPReplicaIPsLbl \<mapsto> ''10.0.0.5''))"
    by (simp add: vol1_mismatch_def)
  have 2: "''dc1'' \<noteq> []" and 5: "''10.0.0.0/24'' \<noteq> []" by simp_all
  show ?thesis
    by (subst setCN_allocation [where K = example_constants,
          OF 1 2 NetworkProps_dc1 mismatch_cidr 5 CIDRSubnet_10 refl refl])
       (simp add: nh_spec_allocator GetAvailableIPs_10 cn_dc1_def claim_eval)
qed

text \<open>
  C2 as stated does not hold. The claim "vol1" with one replica IP, replica count 2 and
  no frontend IP goes through \<open>setCN\<close> without error, and \<open>setCN\<close> assigns it the frontend
  address 10.0.0.1.
\<close>

theorem setCN_mismatch_counterexample:
  "length (Split (label_of vol1_mismatch (example_constants JivaBackEndAllIPsLbl)) CHR '','') = 1 \<and>
   getBackendCount example_constants vol1_mismatch = Inr 2 \<and>
   label_of vol1_mismatch (example_constants JivaFrontEndIPLbl) = [] \<and>
   snd (setCN example_constants nethelper_spec jiva_dc1 ''dc1'' vol1_mismatch) = None \<and>
   label_of (fst (setCN example_constants nethelper_spec jiva_dc1 ''dc1'' vol1_mismatch))
     (example_constants JivaFrontEndIPLbl) = ''10.0.0.1''"
proof -
  have a: "length (Split (label_of vol1_mismatch (example_constants JivaBackEndAllIPsLbl)) CHR '','') = 1"
    by (simp add: vol1_mismatch_def claim_eval)
  have b: "getBackendCount example_constants vol1_mismatch = Inr 2"
    by (simp add: getBackendCount_def vol1_mismatch_def claim_eval Atoi_def digit_val_def)
  have c: "label_of vol1_mismatch (example_constants JivaFrontEndIPLbl) = []"
    by (simp add: vol1_mismatch_def claim_eval)
  have d: "snd (setCN example_constants nethelper_spec jiva_dc1 ''dc1'' vol1_mismatch) = None"
    by (simp add: setCN_vol1_mismatch)
  have e: "label_of (fst (setCN example_constants nethelper_spec jiva_dc1 ''dc1'' vol1_mismatch))
     (example_constants JivaFrontEndIPLbl) = ''10.0.0.1''"
    by (simp add: setCN_vol1_mismatch label_of_def lbl_def)
  from a b c d e show ?thesis by (simp only: simp_thms)
qed

text \<open>
  C2, amended. The comparison is made when the job is built: for every claim that has a
  name and all the properties \<open>PvcToJob\<close> checks, whose replica count parses to a
  number other than 0 that differs from the number of comma-separated replica IPs,
  \<open>PvcToJob\<close> fails with the replica-IP-count mismatch error, which carries both
  numbers, and builds no job.
\<close>

theorem PvcToJob_replica_count_mismatch:
  assumes "pvc_Name c \<noteq> []" and "pvc_Labels c = Some m"
    and "first_absent K m = None"
    and "Atoi (lbl m (K PVPReplicaCountLbl)) = Inr n" and "n \<noteq> 0"
    and "int (length (Split (lbl m (K PVPReplicaIPsLbl)) CHR '','')) \<noteq> n"
  shows "PvcToJob K (Some c) =
           Inl (ReplicaIPCountMismatch (int (length (Split (lbl m (K PVPReplicaIPsLbl)) CHR '',''))) n)"
proof -
  from assms(3) have present:
    "lbl m (K OrchRegionLbl) \<noteq> []" "lbl m (K OrchDCLbl) \<noteq> []"
    "lbl m (K PVPControllerImageLbl) \<noteq> []" "lbl m (K PVPControllerIPsLbl) \<noteq> []"
    "lbl m (K PVPReplicaIPsLbl) \<noteq> []" "lbl m (K CNTypeLbl) \<noteq> []"
    "lbl m (K CNSubnetLbl) \<noteq> []" "lbl m (K CNInterfaceLbl) \<noteq> []"
    "lbl m (K PVPPersistenceLocationLbl) \<noteq> []" "lbl m (K PVPStorageSizeLbl) \<noteq> []"
    by (simp_all add: first_absent_def required_properties_def split: if_splits)
  with assms show ?thesis
    by (simp add: PvcToJob_def setBEIPs_def)
qed

theorem PvcToJob_replica_count_mismatch_witness:
  "PvcToJob example_constants (Some vol1_mismatch) = Inl (ReplicaIPCountMismatch 1 2)"
proof -
  let ?K = example_constants
  let ?m = "unallocated_labels(?K JivaBackEndAllIPsLbl \<mapsto> ''10.0.0.5'',
                               ?K PVPReplicaIPsLbl \<mapsto> ''10.0.0.5'')"
  have 1: "pvc_Name vol1_mismatch \<noteq> []" and 2: "pvc_Labels vol1_mismatch = Some ?m"
    by (simp_all add: vol1_mismatch_def vol1_def)
  have 3: "first_absent ?K ?m = None"
    by (simp add: first_absent_def required_properties_def claim_eval)
  have 4: "Atoi (lbl ?m (?K PVPReplicaCountLbl)) = Inr 2"
    by (simp add: claim_eval Atoi_def digit_val_def)
  have 5: "(2::int) \<noteq> 0" by simp
  have len: "int (length (Split (lbl ?m (?K PVPReplicaIPsLbl)) CHR '','')) = 1"
    by (simp add: claim_eval)
  then have 6: "int (length (Split (lbl ?m (?K PVPReplicaIPsLbl)) CHR '','')) \<noteq> 2" by simp
  from PvcToJob_replica_count_mismatch [where K = example_constants, OF 1 2 3 4 5 6] len
  show ?thesis by simp
qed

subsection \<open>Labels that resolution keeps\<close>

lemma keep_setJivaLblProps:
  "label_of pvc k \<noteq> [] \<Longrightarrow> label_of (fst (setJivaLblProps K pvc)) k = label_of pvc k"
  by (auto simp add: setJivaLblProps_def label_of_def lbl_def split: option.splits if_splits)

lemma keep_setRegion:
  "label_of pvc k \<noteq> [] \<Longrightarrow> label_of (fst (setRegion K j pvc)) k = label_of pvc k"
  by (auto simp add: setRegion_def label_of_def lbl_def split: option.splits sum.splits if_splits)

lemma keep_setDC:
  "label_of pvc k \<noteq> [] \<Longrightarrow> label_of (fst (setDC K j pvc)) k = label_of pvc k"
  by (auto simp add: setDC_def label_of_def lbl_def split: option.splits sum.splits if_splits)

lemma keep_setCS:
  "label_of pvc k \<noteq> [] \<Longrightarrow> label_of (fst (setCS K j dc pvc)) k = label_of pvc k"
  by (auto simp add: setCS_def label_of_def lbl_def setDefaults_keeps split: option.splits sum.splits if_splits)

lemma keep_setCN:
  assumes "label_of pvc k \<noteq> []" and "k \<noteq> K CNSubnetLbl"
  shows "label_of (fst (setCN K nh j dc pvc)) k = label_of pvc k"
proof -
  from assms(1) obtain m where m: "pvc_Labels pvc = Some m" and mk: "lbl m k \<noteq> []"
    by (auto simp add: label_of_def split: option.splits if_splits)
  have l0: "label_of pvc k = lbl m k" by (simp add: label_of_def m)
  show ?thesis
  proof (cases "dc = []")
    case True
    then show ?thesis by (simp add: setCN_def m)
  next
    case dc: False
    show ?thesis
    proof (cases "NetworkProps j dc")
      case (Inl e)
      with dc show ?thesis by (simp add: setCN_def m)
    next
      case (Inr cn)
      let ?m1 = "setDefaults cn m"
      have k1: "lbl ?m1 k = lbl m k"
        using setDefaults_keeps [OF mk, of cn] by (simp add: lbl_def)
      show ?thesis
      proof (cases "lbl ?m1 (K CNNetworkCIDRAddrLbl) = []")
        case True
        with dc Inr k1 show ?thesis by (simp add: setCN_def m Let_def label_of_def)
      next
        case cidr: False
        show ?thesis
        proof (cases "nh_CIDRSubnet nh (lbl ?m1 (K CNNetworkCIDRAddrLbl))")
          case (Inl e)
          with dc Inr cidr k1 show ?thesis by (simp add: setCN_def m Let_def label_of_def)
        next
          case sub: (Inr subnet)
          let ?m2 = "?m1(K CNSubnetLbl \<mapsto> subnet)"
          have k2: "lbl ?m2 k = lbl m k"
            using k1 assms(2) by (simp add: lbl_upd)
          note run = setCN_allocation [where K = K, OF m dc Inr refl cidr sub refl refl]
          from k2 mk have ne: "lbl ?m2 k \<noteq> []" by simp
          have fe: "lbl ?m2 (K JivaFrontEndIPLbl) = [] \<Longrightarrow> k \<noteq> K JivaFrontEndIPLbl"
            using ne by auto
          have be: "lbl ?m2 (K JivaBackEndAllIPsLbl) = [] \<Longrightarrow> k \<noteq> K JivaBackEndAllIPsLbl"
            using ne by auto
          show ?thesis
          proof (cases "lbl ?m2 (K JivaFrontEndIPLbl) = []")
            case f: True
            show ?thesis
            proof (cases "lbl ?m2 (K JivaBackEndAllIPsLbl) = []")
              case b: True
              from f b fe be k2 show ?thesis
                unfolding run l0
                by (simp add: label_of_def lbl_upd split: sum.splits list.splits)
            next
              case b: False
              from f b fe k2 show ?thesis
                unfolding run l0
                by (simp add: label_of_def lbl_upd split: sum.splits list.splits)
            qed
          next
            case f: False
            show ?thesis
            proof (cases "lbl ?m2 (K JivaBackEndAllIPsLbl) = []")
              case b: True
              from f b be k2 show ?thesis
                unfolding run l0
                by (simp add: label_of_def lbl_upd split: sum.splits list.splits)
            next
              case b: False
              from f b k2 show ?thesis
                unfolding run l0
                by (simp add: label_of_def lbl_upd)
            qed
          qed
        qed
      qed
    qed
  qed
qed


lemma keep_initLabels: "label_of (fst (initLabels pvc)) k = label_of pvc k"
  by (simp add: initLabels_def label_of_def lbl_def split: option.splits)

lemma keep_verifySpecs: "fst (verifySpecs pvc) = pvc"
  by (simp add: verifySpecs_def)

lemma labels_setVolSize: "pvc_Labels (fst (setVolSize key pvc)) = pvc_Labels pvc"
  by (simp add: setVolSize_def set_request_def split: sum.splits option.splits)

lemma keep_setJivaSpecProps: "label_of (fst (setJivaSpecProps K pvc)) k = label_of pvc k"
proof -
  obtain p e where r: "setVolSize (K JivaFrontEndVolSizeLbl) pvc = (p, e)"
    by (cases "setVolSize (K JivaFrontEndVolSizeLbl) pvc")
  from labels_setVolSize [of "K JivaFrontEndVolSizeLbl" pvc] r
  have p: "pvc_Labels p = pvc_Labels pvc" by simp
  from labels_setVolSize [of "K JivaBackEndVolSizeLbl" p] p
  have "pvc_Labels (fst (setVolSize (K JivaBackEndVolSizeLbl) p)) = pvc_Labels pvc" by simp
  with r p show ?thesis
    by (cases e) (simp_all add: setJivaSpecProps_def and_then_def label_of_def)
qed

lemma keep_and_then:
  assumes "label_of (fst r) k = v"
    and "\<And>p. label_of p k = v \<Longrightarrow> label_of (fst (f p)) k = v"
  shows "label_of (fst (and_then r f)) k = v"
proof (cases r)
  case (Pair p e)
  with assms show ?thesis by (cases e) (simp_all add: and_then_def)
qed

lemma keep_ProvisionStorage:
  assumes "label_of pvc k \<noteq> []" and "k \<noteq> K CNSubnetLbl"
  shows "label_of (fst (ProvisionStorage K nh j pvc)) k = label_of pvc k"
proof -
  define v where "v = label_of pvc k"
  with assms(1) have v: "v \<noteq> []" by simp
  let ?chain = "and_then (and_then (and_then (and_then (initLabels pvc) verifySpecs)
                  (setJivaLblProps K)) (setJivaSpecProps K)) (setRegion K j)"
  have c: "label_of (fst ?chain) k = v"
  proof (intro keep_and_then)
    show "label_of (fst (initLabels pvc)) k = v" by (simp add: keep_initLabels v_def)
  next
    fix p assume "label_of p k = v"
    then show "label_of (fst (verifySpecs p)) k = v" by (simp add: keep_verifySpecs)
  next
    fix p assume "label_of p k = v"
    with v show "label_of (fst (setJivaLblProps K p)) k = v" by (simp add: keep_setJivaLblProps)
  next
    fix p assume "label_of p k = v"
    then show "label_of (fst (setJivaSpecProps K p)) k = v" by (simp add: keep_setJivaSpecProps)
  next
    fix p assume "label_of p k = v"
    with v show "label_of (fst (setRegion K j p)) k = v" by (simp add: keep_setRegion)
  qed
  have tail: "label_of (fst (and_then (setCS K j dc p) (setCN K nh j dc))) k = v"
    if "label_of p k = v" for p dc
  proof (intro keep_and_then)
    from that v show "label_of (fst (setCS K j dc p)) k = v" by (simp add: keep_setCS)
  next
    fix q assume "label_of q k = v"
    with v assms(2) show "label_of (fst (setCN K nh j dc q)) k = v" by (simp add: keep_setCN)
  qed
  have dcs: "label_of (fst (setDC K j p)) k = v" if "label_of p k = v" for p
    using that v by (simp add: keep_setDC)
  obtain p1 e1 where r1: "?chain = (p1, e1)" by (cases ?chain)
  with c have p1: "label_of p1 k = v" by simp
  obtain p2 d where r2: "setDC K j p1 = (p2, d)" by (cases "setDC K j p1")
  with dcs [OF p1] have p2: "label_of p2 k = v" by simp
  have rest: "label_of (fst (case e1 of
                 Some e \<Rightarrow> (p1, Inl e)
               | None \<Rightarrow>
                  (case d of
                     Inl e \<Rightarrow> (p2, Inl e)
                   | Inr dc \<Rightarrow>
                       (case and_then (setCS K j dc p2) (setCN K nh j dc) of
                          (pvc3, Some e) \<Rightarrow> (pvc3, Inl e)
                        | (pvc3, None) \<Rightarrow> (pvc3, StoragePlacementReq orch pvc3))))) k = v" for orch
  proof (cases e1)
    case (Some e)
    with p1 show ?thesis by simp
  next
    case None
    show ?thesis
    proof (cases d)
      case (Inl e)
      with None p2 show ?thesis by simp
    next
      case (Inr dc)
      obtain p3 e3 where r3: "and_then (setCS K j dc p2) (setCN K nh j dc) = (p3, e3)"
        by (cases "and_then (setCS K j dc p2) (setCN K nh j dc)")
      with tail [OF p2, of dc] have "label_of p3 k = v" by simp
      with None Inr r3 show ?thesis by (cases e3) simp_all
    qed
  qed
  show ?thesis
  proof (cases "jiva_aspect j")
    case None
    then show ?thesis by (simp add: ProvisionStorage_def)
  next
    case (Some a)
    show ?thesis
    proof (cases "GetOrchProvider a")
      case (Inl e)
      with Some show ?thesis by (simp add: ProvisionStorage_def)
    next
      case (Inr ob)
      show ?thesis
      proof (cases ob)
        case None
        with Some Inr show ?thesis by (simp add: ProvisionStorage_def)
      next
        case orch: (Some orch)
        show ?thesis
        proof (cases "orch_StoragePlacements orch")
          case False
          with Some Inr orch show ?thesis by (simp add: ProvisionStorage_def)
        next
          case True
          with Some Inr orch rest [of orch] show ?thesis
            by (simp add: ProvisionStorage_def r1 r2 v_def)
        qed
      qed
    qed
  qed
qed

subsection \<open>A claim with a subnet of its own\<close>

lemmas resolved_eval =
  vol1_resolved_def vol1_own_subnet_def resolved_labels_def resolved_requests_def

lemma own_subnet_cidr:
  "''10.0.0.0/24'' = lbl (setDefaults cn_dc1
      (resolved_labels(example_constants CNSubnetLbl \<mapsto> ''10.0.0.0/25'')))
      (example_constants CNNetworkCIDRAddrLbl)"
  by (simp add: cn_dc1_def resolved_eval claim_eval)

lemma setCN_vol1_own_subnet:
  "setCN example_constants nethelper_spec jiva_dc1 ''dc1'' vol1_own_subnet =
     (vol1_own_subnet\<lparr>pvc_Labels := Some
        ((setDefaults cn_dc1 (resolved_labels(example_constants CNSubnetLbl \<mapsto> ''10.0.0.0/25'')))
          (example_constants CNSubnetLbl \<mapsto> ''10.0.0.0/24''))\<rparr>, None)"
proof -
  have 1: "pvc_Labels vol1_own_subnet =
      Some (resolved_labels(example_constants CNSubnetLbl \<mapsto> ''10.0.0.0/25''))"
    by (simp add: vol1_own_subnet_def)
  have 2: "''dc1'' \<noteq> []" and 5: "''10.0.0.0/24'' \<noteq> []" by simp_all
  show ?thesis
    by (subst setCN_allocation [where K = example_constants,
          OF 1 2 NetworkProps_dc1 own_subnet_cidr 5 CIDRSubnet_10 refl refl])
       (simp add: cn_dc1_def resolved_eval claim_eval)
qed

text \<open>
  C1 as stated does not hold for the subnet label. The claim "vol1" comes with the
  network 10.0.0.0/24 and the subnet 10.0.0.0/25; \<open>setCN\<close> succeeds and leaves the subnet
  10.0.0.0/24 on it.
\<close>

theorem setCN_subnet_counterexample:
  "label_of vol1_own_subnet (example_constants CNSubnetLbl) = ''10.0.0.0/25'' \<and>
   snd (setCN example_constants nethelper_spec jiva_dc1 ''dc1'' vol1_own_subnet) = None \<and>
   label_of (fst (setCN example_constants nethelper_spec jiva_dc1 ''dc1'' vol1_own_subnet))
     (example_constants CNSubnetLbl) = ''10.0.0.0/24''"
proof -
  have a: "label_of vol1_own_subnet (example_constants CNSubnetLbl) = ''10.0.0.0/25''"
    by (simp add: vol1_own_subnet_def label_of_def lbl_def)
  have b: "snd (setCN example_constants nethelper_spec jiva_dc1 ''dc1'' vol1_own_subnet) = None"
    by (simp add: setCN_vol1_own_subnet)
  have c: "label_of (fst (setCN example_constants nethelper_spec jiva_dc1 ''dc1'' vol1_own_subnet))
     (example_constants CNSubnetLbl) = ''10.0.0.0/24''"
    by (simp add: setCN_vol1_own_subnet label_of_def lbl_def)
  from a b c show ?thesis by (simp only: simp_thms)
qed

text \<open>
  Whatever the address helper is: once \<open>setCN\<close> has derived the subnet, the subnet label
  holds the derived subnet, whether or not the allocation that follows succeeds.
\<close>

lemma setCN_stores_derived_subnet:
  assumes "pvc_Labels pvc = Some m" and "dc \<noteq> []" and "NetworkProps j dc = Inr cn"
    and "cidr = lbl (setDefaults cn m) (K CNNetworkCIDRAddrLbl)" and "cidr \<noteq> []"
    and "nh_CIDRSubnet nh cidr = Inr subnet"
    and "K CNSubnetLbl \<noteq> K JivaFrontEndIPLbl" and "K CNSubnetLbl \<noteq> K JivaBackEndAllIPsLbl"
  shows "label_of (fst (setCN K nh j dc pvc)) (K CNSubnetLbl) = subnet"
  unfolding setCN_allocation [where K = K, OF assms(1-6) refl refl]
  using assms(7,8)
  by (simp add: label_of_def lbl_upd split: sum.splits list.splits)

text \<open>
  C1, amended. For every claim and every key other than the subnet label: a value that
  is on the claim and not empty before resolution is still on it afterwards, after each
  of \<open>setJivaLblProps\<close>, \<open>setRegion\<close>, \<open>setDC\<close>, \<open>setCS\<close> and \<open>setCN\<close> and after the whole of
  \<open>ProvisionStorage\<close>, whether the step succeeds or fails. Only \<open>setCN\<close> writes the subnet
  label, so the four other steps keep it too.
\<close>

theorem resolution_keeps_labels:
  assumes "label_of pvc k \<noteq> []"
  shows "label_of (fst (setJivaLblProps K pvc)) k = label_of pvc k \<and>
         label_of (fst (setRegion K j pvc)) k = label_of pvc k \<and>
         label_of (fst (setDC K j pvc)) k = label_of pvc k \<and>
         label_of (fst (setCS K j dc pvc)) k = label_of pvc k \<and>
         (k \<noteq> K CNSubnetLbl \<longrightarrow>
            label_of (fst (setCN K nh j dc pvc)) k = label_of pvc k \<and>
            label_of (fst (ProvisionStorage K nh j pvc)) k = label_of pvc k)"
  using assms
  by (simp add: keep_setJivaLblProps keep_setRegion keep_setDC keep_setCS keep_setCN
      keep_ProvisionStorage)

text \<open>
  The claim's own network, 10.0.0.0/24, stays although the datacenter's default is
  172.28.128.1/24.
\<close>

theorem resolution_keeps_labels_witness:
  "label_of (fst (setCN example_constants nethelper_spec jiva_dc1 ''dc1'' vol1_own_subnet))
     (example_constants CNNetworkCIDRAddrLbl) = ''10.0.0.0/24'' \<and>
   label_of (fst (ProvisionStorage example_constants nethelper_spec jiva_dc1 vol1_own_subnet))
     (example_constants CNNetworkCIDRAddrLbl) = ''10.0.0.0/24'' \<and>
   (example_constants CNNetworkCIDRAddrLbl, ''172.28.128.1/24'') \<in> set cn_dc1"
proof -
  let ?k = "example_constants CNNetworkCIDRAddrLbl"
  have v: "label_of vol1_own_subnet ?k = ''10.0.0.0/24''"
    by (simp add: resolved_eval claim_eval)
  then have ne: "label_of vol1_own_subnet ?k \<noteq> []" by simp
  have d: "?k \<noteq> example_constants CNSubnetLbl"
    by (simp add: example_constants_def)
  from resolution_keeps_labels [OF ne, where K = example_constants and nh = nethelper_spec
      and j = jiva_dc1 and dc = "''dc1''"] d v
  have "label_of (fst (setCN example_constants nethelper_spec jiva_dc1 ''dc1'' vol1_own_subnet)) ?k
          = ''10.0.0.0/24''"
    and "label_of (fst (ProvisionStorage example_constants nethelper_spec jiva_dc1 vol1_own_subnet)) ?k
          = ''10.0.0.0/24''"
    by simp_all
  moreover have "(?k, ''172.28.128.1/24'') \<in> set cn_dc1"
    by (simp add: cn_dc1_def)
  ultimately show ?thesis by (simp only: simp_thms)
qed

subsection \<open>Resolving a claim that is resolved already\<close>










end
